theory Spec2Isabelle
  imports Main "HOL-Library.Word"
begin

section \<open>The PITR coordinator of the backup agent (cmd/pbm-agent/pitr.go)\<close>

text \<open>
  The agent's PITR routine talks to collaborators that live in other packages: the
  metadata store, the lock adapter, topology discovery, the slicer. Their code is not
  part of this file, so they are parameters of the model: a record \<open>deps\<close> of functions
  over an arbitrary world \<open>'w\<close>, each returning its result together with the world it
  leaves behind. A world can hold anything (a call counter, the documents other agents
  write meanwhile), so a collaborator may answer differently at every call.

  Every call the routine makes is appended, in program order and with the result it got,
  to a trace kept beside the world. Go's \<open>(value, error)\<close> returns are sums
  (\<open>Inl\<close> the error; an error comes with no value, a nil error with a value), a lone
  \<open>error\<close> return is an \<open>err option\<close> (\<open>None\<close> is \<open>nil\<close>). Logging is left
  out. The mutex around the slicer slot is left out too: each function below is one
  sequential run of its goroutine, and what other goroutines and other agents do
  meanwhile shows only in the answers of the collaborators and in whether a send on the
  wake channel is received.

  The endless loop \<open>PITR\<close> around the tick, and \<open>reconcileReadyStatus\<close> and
  \<open>isPITRClusterStatus\<close>, which the tick does not call, are not modelled.
\<close>

subsection \<open>Data\<close>

text \<open>
  The types of the other packages, with the fields this file reads or fills in.
  primitive.Timestamp has two unsigned 32-bit fields.
\<close>

record timestamp =
  ts_T :: "32 word"
  ts_I :: "32 word"

text \<open>ctrl.Command is a string type; only these constants are compared in this file.\<close>

datatype command = CmdUndefined | CmdBackup | CmdPITR | CmdOther string

record lock_header =
  Lock_Type :: command
  Lock_Replset :: string
  Lock_Node :: string
  Lock_OPID :: string
  Lock_Epoch :: "timestamp option"

record lock_data =
  LockHeader :: lock_header
  Heartbeat :: timestamp

text \<open>The zero value \<open>lock.LockHeader{}\<close>.\<close>

definition emptyLockHeader :: lock_header where
  "emptyLockHeader =
     \<lparr>Lock_Type = CmdUndefined, Lock_Replset = [], Lock_Node = [], Lock_OPID = [],
      Lock_Epoch = None\<rparr>"

text \<open>defs.BackupType is a string type; the code compares with \<open>defs.LogicalBackup\<close> only.\<close>

datatype backup_type =
  LogicalBackup | PhysicalBackup | IncrementalBackup | ExternalBackup | OtherBackup string

record backup_meta =
  Bcp_Name :: string
  Bcp_Type :: backup_type

text \<open>
  Errors. \<open>Wrap e msg\<close> is \<open>errors.Wrap(e, msg)\<close>; \<open>errors.Is\<close> and \<open>errors.As\<close>
  walk down the chain of wrapped errors.
\<close>

datatype err =
    ErrNoDocuments
  | ErrNotFound
  | ConcurrentOpError lock_header
  | ErrNew string
  | Wrap err string

fun errors_Is :: "err \<Rightarrow> err \<Rightarrow> bool" where
  "errors_Is (Wrap e m) t = (Wrap e m = t \<or> errors_Is e t)"
| "errors_Is e t = (e = t)"

fun errors_As_ConcurrentOp :: "err \<Rightarrow> lock_header option" where
  "errors_As_ConcurrentOp (ConcurrentOpError h) = Some h"
| "errors_As_ConcurrentOp (Wrap e m) = errors_As_ConcurrentOp e"
| "errors_As_ConcurrentOp e = None"

text \<open>
  Modelled from the spec: the declaration of config.Config is not in this file. The
  spec's data model lists the fields read each tick (enabled, oplog_only, priority,
  compression, timeouts, storage, epoch); the empty config \<open>&config.Config{}\<close> has the
  zero value in each. Priority weights, storage settings and timeouts are only passed on.
\<close>

record pitr_conf =
  Enabled :: bool
  OplogOnly :: bool
  Priority :: "(string \<times> int) list"
  Compression :: string
  CompressionLevel :: "int option"

record config =
  PITR :: pitr_conf
  Storage :: string
  Backup_Timeouts :: "int option"
  Epoch :: timestamp

definition emptyConfig :: config where
  "emptyConfig =
     \<lparr>PITR = \<lparr>Enabled = False, OplogOnly = False, Priority = [], Compression = [],
              CompressionLevel = None\<rparr>,
      Storage = [], Backup_Timeouts = None, Epoch = \<lparr>ts_T = 0, ts_I = 0\<rparr>\<rparr>"

record node_info =
  NI_SetName :: string
  NI_Me :: string
  NI_IsClusterLeader :: bool

record shard =
  Shard_RS :: string

text \<open>oplog.PITRNominees: the nomination fragment of one replica set.\<close>

record pitr_nominees =
  Nom_RS :: string
  Nom_Nodes :: "string list"
  Nom_Ack :: string

datatype status = StatusReady | StatusOther string

text \<open>
  Modelled from the spec: slicer.Slicer is not in this file; \<open>set_span\<close> and
  \<open>get_span\<close> store and read the slicing interval. A \<open>time.Duration\<close> is a number of
  nanoseconds.
\<close>

record slicer =
  Slicer_RS :: string
  Slicer_Storage :: string
  span :: int

definition SetSpan :: "int \<Rightarrow> slicer \<Rightarrow> slicer" where
  "SetSpan d s = s\<lparr>span := d\<rparr>"

definition GetSpan :: "slicer \<Rightarrow> int" where
  "GetSpan s = span s"

text \<open>ctrl.OPID, with the sentinel \<open>ctrl.NilOPID\<close>.\<close>

datatype opid = NilOPID | OPID string

text \<open>
  The slicer handle. The wake channel (the field \<open>w\<close>, here \<open>w_chan\<close>) and the
  cancel function are identified by numbers: a send on the channel and a call of the
  cancel function are events of the trace.
\<close>

record currentPitr =
  slicer :: slicer
  w_chan :: nat
  cancel :: nat

record brief =
  SetName :: string
  Me :: string

definition second :: int where
  "second = 1000000000"

definition pitrCheckPeriod :: int where
  "pitrCheckPeriod = 15 * second"

definition pitrRenominationFrame :: int where
  "pitrRenominationFrame = 5 * second"

subsection \<open>Goroutines and the trace of calls\<close>

datatype task =
    GoNominate string "string list list"
  | GoStream slicer config lock_header
  | GoWatcher nat nat

datatype event =
    EvGetConfig "err + config"
  | EvGetLocks lock_header "err + lock_data list"
  | EvGetBackupByOPID string "err + backup_meta"
  | EvGetClusterTime "err + timestamp"
  | EvGetOpLockData lock_header "err + lock_data"
  | EvGetNodeInfoExt "err + node_info"
  | EvNodeSuits node_info "err + bool"
  | EvIsOplogSlicing "err + bool"
  | EvInitMeta "err option"
  | EvListAgentStatuses "err + string list"
  | EvCalcNodesPriority "(string \<times> int) list" "string list" "err + nat"
  | EvClusterMembers "err + shard list"
  | EvSetPITRNomination string "err option"
  | EvGetPITRNominees string "err + pitr_nominees"
  | EvSetPITRNominees string "string list" "err option"
  | EvSetPITRNomineeACK string string "err option"
  | EvGetClusterStatus "err + status"
  | EvSetReadyRSStatus string string "err option"
  | EvAcquireLock lock_header "err + bool"
  | EvRelease lock_header "err option"
  | EvStorageFromConfig string "err + string"
  | EvCatchup slicer "err option"
  | EvOplogOnlyCatchup slicer "err option"
  | EvStream slicer "err option"
  | EvSleep int
  | EvCancel nat
  | EvSend nat opid bool
  | EvClose nat
  | EvGo task

text \<open>
  The collaborators (\<open>acquireLock\<close> is a method of the agent itself, written in
  another file). Agent statuses are passed on unread (strings here); the priorities
  computed by prio.CalcNodesPriority are a handle (a number) that \<open>NodesRS\<close>, the method
  \<open>RS\<close> of the result, turns into the ordered tiers of a replica set.

  The three polling loops select between a ticker and a timeout timer. The timer fires
  once and ends the loop, so a run of a loop is a number of ticks followed by the
  timeout, unless a tick returns first: \<open>opLockTicks\<close>, \<open>readyTicks\<close> and
  \<open>nominationTicks\<close> are the numbers of ticks the select takes before it takes the
  timeout.

  The wake channel is unbuffered: a send on it completes when the goroutine at the
  other end, the slicer's \<open>Stream\<close>, receives, and not before. \<open>Receives\<close> says
  whether that happens; \<open>False\<close> is a send that nobody ever takes, so the sender never
  gets past it. The result is recorded in the event of the send.
\<close>

record 'w deps =
  GetConfig :: "'w \<Rightarrow> (err + config) \<times> 'w"
  OplogSlicerInterval :: "config \<Rightarrow> int"
  GetLocks :: "lock_header \<Rightarrow> 'w \<Rightarrow> (err + lock_data list) \<times> 'w"
  GetBackupByOPID :: "string \<Rightarrow> 'w \<Rightarrow> (err + backup_meta) \<times> 'w"
  GetClusterTime :: "'w \<Rightarrow> (err + timestamp) \<times> 'w"
  GetOpLockData :: "lock_header \<Rightarrow> 'w \<Rightarrow> (err + lock_data) \<times> 'w"
  StaleFrameSec :: "32 word"
  GetNodeInfoExt :: "'w \<Rightarrow> (err + node_info) \<times> 'w"
  NodeSuits :: "node_info \<Rightarrow> 'w \<Rightarrow> (err + bool) \<times> 'w"
  IsOplogSlicing :: "'w \<Rightarrow> (err + bool) \<times> 'w"
  InitMeta :: "'w \<Rightarrow> err option \<times> 'w"
  ListAgentStatuses :: "'w \<Rightarrow> (err + string list) \<times> 'w"
  CalcNodesPriority :: "(string \<times> int) list \<Rightarrow> string list \<Rightarrow> 'w \<Rightarrow> (err + nat) \<times> 'w"
  NodesRS :: "nat \<Rightarrow> string \<Rightarrow> string list list"
  ClusterMembers :: "'w \<Rightarrow> (err + shard list) \<times> 'w"
  SetPITRNomination :: "string \<Rightarrow> 'w \<Rightarrow> err option \<times> 'w"
  GetPITRNominees :: "string \<Rightarrow> 'w \<Rightarrow> (err + pitr_nominees) \<times> 'w"
  SetPITRNominees :: "string \<Rightarrow> string list \<Rightarrow> 'w \<Rightarrow> err option \<times> 'w"
  SetPITRNomineeACK :: "string \<Rightarrow> string \<Rightarrow> 'w \<Rightarrow> err option \<times> 'w"
  GetClusterStatus :: "'w \<Rightarrow> (err + status) \<times> 'w"
  SetReadyRSStatus :: "string \<Rightarrow> string \<Rightarrow> 'w \<Rightarrow> err option \<times> 'w"
  acquireLock :: "lock_header \<Rightarrow> 'w \<Rightarrow> (err + bool) \<times> 'w"
  Release :: "lock_header \<Rightarrow> 'w \<Rightarrow> err option \<times> 'w"
  StorageFromConfig :: "string \<Rightarrow> 'w \<Rightarrow> (err + string) \<times> 'w"
  NewSlicer :: "string \<Rightarrow> string \<Rightarrow> config \<Rightarrow> slicer"
  Catchup :: "slicer \<Rightarrow> 'w \<Rightarrow> err option \<times> 'w"
  OplogOnlyCatchup :: "slicer \<Rightarrow> 'w \<Rightarrow> err option \<times> 'w"
  Stream :: "slicer \<Rightarrow> nat \<Rightarrow> nat \<Rightarrow> string \<Rightarrow> int option \<Rightarrow> int option \<Rightarrow> 'w \<Rightarrow> err option \<times> 'w"
  Receives :: "nat \<Rightarrow> opid \<Rightarrow> 'w \<Rightarrow> bool \<times> 'w"
  opLockTicks :: nat
  readyTicks :: nat
  nominationTicks :: nat

text \<open>
  The agent: the fields of \<open>Agent\<close> this file uses, the world behind its connections,
  and the trace of the calls made so far.
\<close>

record 'w agent =
  agent_brief :: brief
  pitrjob :: "currentPitr option"
  prevOO :: "bool option"
  world :: 'w
  trace :: "event list"

definition call :: "('w \<Rightarrow> 'r \<times> 'w) \<Rightarrow> ('r \<Rightarrow> event) \<Rightarrow> 'w agent \<Rightarrow> 'r \<times> 'w agent" where
  "call f ev a =
     (case f (world a) of (r, w') \<Rightarrow> (r, a\<lparr>world := w', trace := trace a @ [ev r]\<rparr>))"

definition emit :: "event \<Rightarrow> 'w agent \<Rightarrow> 'w agent" where
  "emit e a = a\<lparr>trace := trace a @ [e]\<rparr>"

subsection \<open>The slicer slot\<close>

definition setPitr :: "currentPitr option \<Rightarrow> 'w agent \<Rightarrow> 'w agent" where
  "setPitr p a =
     (let a1 = (case pitrjob a of None \<Rightarrow> a | Some old \<Rightarrow> emit (EvCancel (cancel old)) a)
      in a1\<lparr>pitrjob := p\<rparr>)"

definition removePitr :: "'w agent \<Rightarrow> 'w agent" where
  "removePitr a = setPitr None a"

definition getPitr :: "'w agent \<Rightarrow> currentPitr option" where
  "getPitr a = pitrjob a"

text \<open>
  \<open>sliceNow\<close> sends on the wake channel of the handle, with the mutex held. It says
  whether it returns: \<open>True\<close> when there is no handle or the send was received,
  \<open>False\<close> when the send is never received and the caller stays in it.
\<close>

definition sliceNow :: "'w deps \<Rightarrow> opid \<Rightarrow> 'w agent \<Rightarrow> bool \<times> 'w agent" where
  "sliceNow d op a =
     (case pitrjob a of
        None \<Rightarrow> (True, a)
      | Some p \<Rightarrow> call (Receives d (w_chan p) op) (EvSend (w_chan p) op) a)"

definition stopPitrOnOplogOnlyChange :: "bool \<Rightarrow> 'w agent \<Rightarrow> 'w agent" where
  "stopPitrOnOplogOnlyChange currOO a =
     (case prevOO a of
        None \<Rightarrow> a\<lparr>prevOO := Some currOO\<rparr>
      | Some prev \<Rightarrow>
          if prev = currOO then a
          else removePitr (a\<lparr>prevOO := Some currOO\<rparr>))"

subsection \<open>The concurrency gate\<close>

fun canSlicingNow_locks :: "'w deps \<Rightarrow> lock_data list \<Rightarrow> 'w agent \<Rightarrow> err option \<times> 'w agent" where
  "canSlicingNow_locks d [] a = (None, a)"
| "canSlicingNow_locks d (l # ls) a =
     (if Lock_Type (LockHeader l) \<noteq> CmdBackup
      then (Some (ConcurrentOpError (LockHeader l)), a)
      else
        (case call (GetBackupByOPID d (Lock_OPID (LockHeader l)))
                (EvGetBackupByOPID (Lock_OPID (LockHeader l))) a of
           (Inl e, a1) \<Rightarrow> (Some (Wrap e ''get backup metadata''), a1)
         | (Inr bcp, a1) \<Rightarrow>
             if Bcp_Type bcp = LogicalBackup
             then (Some (ConcurrentOpError (LockHeader l)), a1)
             else canSlicingNow_locks d ls a1))"

definition canSlicingNow :: "'w deps \<Rightarrow> 'w agent \<Rightarrow> err option \<times> 'w agent" where
  "canSlicingNow d a =
     (case call (GetLocks d emptyLockHeader) (EvGetLocks emptyLockHeader) a of
        (Inl e, a1) \<Rightarrow> (Some (Wrap e ''get locks data''), a1)
      | (Inr locks, a1) \<Rightarrow> canSlicingNow_locks d locks a1)"

subsection \<open>The stale-lock pre-check\<close>

definition pitrLockHeader :: "'w agent \<Rightarrow> lock_header" where
  "pitrLockHeader a =
     \<lparr>Lock_Type = CmdPITR, Lock_Replset = SetName (agent_brief a), Lock_Node = [],
      Lock_OPID = [], Lock_Epoch = None\<rparr>"

definition pitrLockCheck :: "'w deps \<Rightarrow> 'w agent \<Rightarrow> (err + bool) \<times> 'w agent" where
  "pitrLockCheck d a =
     (case call (GetClusterTime d) EvGetClusterTime a of
        (Inl e, a1) \<Rightarrow> (Inl (Wrap e ''read cluster time''), a1)
      | (Inr ts, a1) \<Rightarrow>
          (case call (GetOpLockData d (pitrLockHeader a)) (EvGetOpLockData (pitrLockHeader a)) a1 of
             (Inl e, a2) \<Rightarrow>
               if errors_Is e ErrNoDocuments then (Inr True, a2)
               else (Inl (Wrap e ''get lock''), a2)
           | (Inr lk, a2) \<Rightarrow>
               (Inr (ts_T (Heartbeat lk) + StaleFrameSec d < ts_T ts), a2)))"

subsection \<open>The leader's side: waiting for the old slicers, nominating\<close>

fun waitAllOpLockRelease_loop :: "'w deps \<Rightarrow> nat \<Rightarrow> 'w agent \<Rightarrow> (err + bool) \<times> 'w agent" where
  "waitAllOpLockRelease_loop d 0 a = (Inr False, a)"
| "waitAllOpLockRelease_loop d (Suc n) a =
     (case call (IsOplogSlicing d) EvIsOplogSlicing a of
        (Inl e, a1) \<Rightarrow> (Inl (Wrap e ''is oplog slicing check''), a1)
      | (Inr running, a1) \<Rightarrow>
          if \<not> running then (Inr True, a1)
          else waitAllOpLockRelease_loop d n a1)"

definition waitAllOpLockRelease :: "'w deps \<Rightarrow> 'w agent \<Rightarrow> (err + bool) \<times> 'w agent" where
  "waitAllOpLockRelease d a = waitAllOpLockRelease_loop d (opLockTicks d) a"

fun nominate_tiers :: "'w deps \<Rightarrow> string \<Rightarrow> string list list \<Rightarrow> 'w agent \<Rightarrow> err option \<times> 'w agent" where
  "nominate_tiers d rs [] a = (None, a)"
| "nominate_tiers d rs (n # ns) a =
     (case call (GetPITRNominees d rs) (EvGetPITRNominees rs) a of
        (Inl e, a1) \<Rightarrow>
          if \<not> errors_Is e ErrNotFound then (Some (Wrap e ''get pitr nominees''), a1)
          else
            (case call (SetPITRNominees d rs n) (EvSetPITRNominees rs n) a1 of
               (Some e', a2) \<Rightarrow> (Some (Wrap e' ''set pitr nominees''), a2)
             | (None, a2) \<Rightarrow> nominate_tiers d rs ns (emit (EvSleep pitrRenominationFrame) a2))
      | (Inr nms, a1) \<Rightarrow>
          if length (Nom_Ack nms) > 0 then (None, a1)
          else
            (case call (SetPITRNominees d rs n) (EvSetPITRNominees rs n) a1 of
               (Some e', a2) \<Rightarrow> (Some (Wrap e' ''set pitr nominees''), a2)
             | (None, a2) \<Rightarrow> nominate_tiers d rs ns (emit (EvSleep pitrRenominationFrame) a2)))"

definition nominateRSForPITR :: "'w deps \<Rightarrow> string \<Rightarrow> string list list \<Rightarrow> 'w agent \<Rightarrow> err option \<times> 'w agent" where
  "nominateRSForPITR d rs nodes a =
     (case call (SetPITRNomination d rs) (EvSetPITRNomination rs) a of
        (Some e, a1) \<Rightarrow> (Some (Wrap e ''set pitr nomination meta''), a1)
      | (None, a1) \<Rightarrow> nominate_tiers d rs nodes a1)"

subsection \<open>The nominee's side\<close>

fun confirmReadyStatus_loop :: "'w deps \<Rightarrow> nat \<Rightarrow> 'w agent \<Rightarrow> err option \<times> 'w agent" where
  "confirmReadyStatus_loop d 0 a =
     (Some (ErrNew ''timeout while waiting for ready status''), a)"
| "confirmReadyStatus_loop d (Suc n) a =
     (case call (GetClusterStatus d) EvGetClusterStatus a of
        (Inl e, a1) \<Rightarrow>
          if errors_Is e ErrNotFound then confirmReadyStatus_loop d n a1
          else (Some (Wrap e ''getting cluser status''), a1)
      | (Inr st, a1) \<Rightarrow>
          if st = StatusReady then
            (case call (SetReadyRSStatus d (SetName (agent_brief a)) (Me (agent_brief a)))
                    (EvSetReadyRSStatus (SetName (agent_brief a)) (Me (agent_brief a))) a1 of
               (Some e, a2) \<Rightarrow> (Some (Wrap e ''setting ready status for RS''), a2)
             | (None, a2) \<Rightarrow> (None, a2))
          else confirmReadyStatus_loop d n a1)"

definition confirmReadyStatus :: "'w deps \<Rightarrow> 'w agent \<Rightarrow> err option \<times> 'w agent" where
  "confirmReadyStatus d a = confirmReadyStatus_loop d (readyTicks d) a"

fun waitNomination_loop :: "'w deps \<Rightarrow> string \<Rightarrow> string \<Rightarrow> nat \<Rightarrow> 'w agent \<Rightarrow> (err + bool) \<times> 'w agent" where
  "waitNomination_loop d rs node 0 a = (Inr False, a)"
| "waitNomination_loop d rs node (Suc n) a =
     (case call (GetPITRNominees d rs) (EvGetPITRNominees rs) a of
        (Inl e, a1) \<Rightarrow>
          if errors_Is e ErrNotFound then waitNomination_loop d rs node n a1
          else (Inl (Wrap e ''check pitr nomination''), a1)
      | (Inr nm, a1) \<Rightarrow>
          if length (Nom_Ack nm) > 0 then (Inr False, a1)
          else if node \<in> set (Nom_Nodes nm) then (Inr True, a1)
          else waitNomination_loop d rs node n a1)"

definition waitNominationForPITR :: "'w deps \<Rightarrow> string \<Rightarrow> string \<Rightarrow> 'w agent \<Rightarrow> (err + bool) \<times> 'w agent" where
  "waitNominationForPITR d rs node a =
     (case confirmReadyStatus d a of
        (Some e, a1) \<Rightarrow> (Inl (Wrap e ''confirming ready status''), a1)
      | (None, a1) \<Rightarrow> waitNomination_loop d rs node (nominationTicks d) a1)"

subsection \<open>One tick of the control loop\<close>

text \<open>
  \<open>pitr\<close> is one function in the source. Here it is cut at the places where it has read
  what the next part needs: \<open>pitr\<close> reads the config, \<open>pitr_with_config\<close> goes up to
  the concurrency gate, \<open>pitr_reconcile\<close> is the branch taken when a slicer handle
  exists, \<open>pitr_election\<close> the way to the nomination, \<open>pitr_start\<close> the part from the
  lock to the spawned streaming goroutine, whose body is \<open>pitr_stream_task\<close>.
  A \<open>go\<close> statement is the event \<open>EvGo\<close> of its task; the task's body runs on its own.

  A tick either returns its error (\<open>Returned\<close>, with \<open>None\<close> for nil) or stays in
  the send on the wake channel for ever (\<open>Blocked\<close>); the state beside it is the state
  at the return, or the state in which the tick is stuck.
\<close>

datatype tick_result = Returned "err option" | Blocked

definition returned :: "err option \<times> 'w agent \<Rightarrow> tick_result \<times> 'w agent" where
  "returned x = (Returned (fst x), snd x)"

definition pitr_reconcile ::
  "'w deps \<Rightarrow> int \<Rightarrow> currentPitr \<Rightarrow> 'w agent \<Rightarrow> tick_result \<times> 'w agent" where
  "pitr_reconcile d slicerInterval p a =
     (let currInterval = GetSpan (slicer p) in
      if currInterval \<noteq> slicerInterval then
        (let a1 = a\<lparr>pitrjob := Some (p\<lparr>slicer := SetSpan slicerInterval (slicer p)\<rparr>)\<rparr> in
         if currInterval > slicerInterval then
           (case sliceNow d NilOPID a1 of
              (True, a2) \<Rightarrow> (Returned None, a2)
            | (False, a2) \<Rightarrow> (Blocked, a2))
         else (Returned None, a1))
      else (Returned None, a))"

text \<open>
  The leader branch: \<open>Some r\<close> when the tick returns \<open>r\<close> from inside it, \<open>None\<close>
  when it falls through to the nominee's wait. The error of \<open>oplog.InitMeta\<close> is not
  looked at.
\<close>

definition pitr_leader :: "'w deps \<Rightarrow> config \<Rightarrow> 'w agent \<Rightarrow> err option option \<times> 'w agent" where
  "pitr_leader d cfg a =
     (case waitAllOpLockRelease d a of
        (Inl e, a1) \<Rightarrow> (Some (Some (Wrap e ''wait all oplock release'')), a1)
      | (Inr noLocks, a1) \<Rightarrow>
          if \<not> noLocks then (Some None, a1)
          else
            (case call (InitMeta d) EvInitMeta a1 of (_, a2) \<Rightarrow>
             (case call (ListAgentStatuses d) EvListAgentStatuses a2 of
                (Inl e, a3) \<Rightarrow> (Some (Some (Wrap e ''list agents statuses'')), a3)
              | (Inr agents, a3) \<Rightarrow>
                  (case call (CalcNodesPriority d (Priority (PITR cfg)) agents)
                          (EvCalcNodesPriority (Priority (PITR cfg)) agents) a3 of
                     (Inl e, a4) \<Rightarrow> (Some (Some (Wrap e ''get nodes priorities'')), a4)
                   | (Inr nodes, a4) \<Rightarrow>
                       (case call (ClusterMembers d) EvClusterMembers a4 of
                          (Inl e, a5) \<Rightarrow> (Some (Some (Wrap e ''get cluster members'')), a5)
                        | (Inr shards, a5) \<Rightarrow>
                            (None,
                             foldl (\<lambda>s sh. emit (EvGo (GoNominate (Shard_RS sh)
                                                      (NodesRS d nodes (Shard_RS sh)))) s)
                               a5 shards))))))"

definition pitrOpLock :: "config \<Rightarrow> 'w agent \<Rightarrow> lock_header" where
  "pitrOpLock cfg a =
     \<lparr>Lock_Type = CmdPITR, Lock_Replset = SetName (agent_brief a),
      Lock_Node = Me (agent_brief a), Lock_OPID = [], Lock_Epoch = Some (Epoch cfg)\<rparr>"

definition pitr_start :: "'w deps \<Rightarrow> config \<Rightarrow> int \<Rightarrow> 'w agent \<Rightarrow> err option \<times> 'w agent" where
  "pitr_start d cfg slicerInterval a =
     (let lck = pitrOpLock cfg a in
      case call (acquireLock d lck) (EvAcquireLock lck) a of
        (Inl e, a1) \<Rightarrow> (Some (Wrap e ''acquiring lock''), a1)
      | (Inr got, a1) \<Rightarrow>
          if \<not> got then (None, a1)
          else
            (case call (SetPITRNomineeACK d (SetName (agent_brief a)) (Me (agent_brief a)))
                    (EvSetPITRNomineeACK (SetName (agent_brief a)) (Me (agent_brief a))) a1 of
               (_, a2) \<Rightarrow>
            (case call (StorageFromConfig d (Storage cfg)) (EvStorageFromConfig (Storage cfg)) a2 of
               (Inl e, a3) \<Rightarrow> (Some (Wrap e ''unable to get storage configuration''), a3)
             | (Inr stg, a3) \<Rightarrow>
                 (let s = SetSpan slicerInterval (NewSlicer d (SetName (agent_brief a)) stg cfg) in
                  case (if OplogOnly (PITR cfg)
                        then call (OplogOnlyCatchup d s) (EvOplogOnlyCatchup s) a3
                        else call (Catchup d s) (EvCatchup s) a3) of
                    (Some e, a4) \<Rightarrow>
                      (case call (Release d lck) (EvRelease lck) a4 of
                         (_, a5) \<Rightarrow> (Some (Wrap e ''catchup''), a5))
                  | (None, a4) \<Rightarrow> (None, emit (EvGo (GoStream s cfg lck)) a4)))))"

definition pitr_election :: "'w deps \<Rightarrow> config \<Rightarrow> int \<Rightarrow> 'w agent \<Rightarrow> err option \<times> 'w agent" where
  "pitr_election d cfg slicerInterval a =
     (case pitrLockCheck d a of
        (Inl e, a1) \<Rightarrow> (Some (Wrap e ''check if already run''), a1)
      | (Inr moveOn, a1) \<Rightarrow>
          if \<not> moveOn then (None, a1)
          else
            (case call (GetNodeInfoExt d) EvGetNodeInfoExt a1 of
               (Inl e, a2) \<Rightarrow> (Some (Wrap e ''get node info''), a2)
             | (Inr nodeInfo, a2) \<Rightarrow>
                 (case call (NodeSuits d nodeInfo) (EvNodeSuits nodeInfo) a2 of
                    (Inl e, a3) \<Rightarrow> (Some (Wrap e ''node check''), a3)
                  | (Inr q, a3) \<Rightarrow>
                      if \<not> q then (None, a3)
                      else
                        (case (if NI_IsClusterLeader nodeInfo then pitr_leader d cfg a3
                               else (None, a3)) of
                           (Some r, a4) \<Rightarrow> (r, a4)
                         | (None, a4) \<Rightarrow>
                             (case waitNominationForPITR d (NI_SetName nodeInfo) (NI_Me nodeInfo) a4 of
                                (Inl e, a5) \<Rightarrow> (Some (Wrap e ''wait nomination for pitr''), a5)
                              | (Inr nominated, a5) \<Rightarrow>
                                  if \<not> nominated then (None, a5)
                                  else pitr_start d cfg slicerInterval a5)))))"

definition pitr_with_config :: "'w deps \<Rightarrow> config \<Rightarrow> 'w agent \<Rightarrow> tick_result \<times> 'w agent" where
  "pitr_with_config d cfg a =
     (let slicerInterval = OplogSlicerInterval d cfg in
      if \<not> Enabled (PITR cfg) then (Returned None, removePitr a)
      else
        (let a1 = stopPitrOnOplogOnlyChange (OplogOnly (PITR cfg)) a in
         case canSlicingNow d a1 of
           (Some e, a2) \<Rightarrow>
             (case errors_As_ConcurrentOp e of
                Some h \<Rightarrow> (Returned None, a2)
              | None \<Rightarrow> (Returned (Some e), a2))
         | (None, a2) \<Rightarrow>
             (case getPitr a2 of
                Some p \<Rightarrow> pitr_reconcile d slicerInterval p a2
              | None \<Rightarrow> returned (pitr_election d cfg slicerInterval a2))))"

definition pitr :: "'w deps \<Rightarrow> 'w agent \<Rightarrow> tick_result \<times> 'w agent" where
  "pitr d a =
     (case call (GetConfig d) EvGetConfig a of
        (Inl e, a1) \<Rightarrow>
          if \<not> errors_Is e ErrNoDocuments then (Returned (Some (Wrap e ''get conf'')), a1)
          else pitr_with_config d emptyConfig a1
      | (Inr cfg, a1) \<Rightarrow> pitr_with_config d cfg a1)"

text \<open>
  The streaming goroutine. \<open>stopSlicing\<close>, \<open>stopC\<close> and \<open>wch\<close> are the cancel function
  and the two channels it creates. The deferred \<open>stopSlicing()\<close> is its last event; the
  goroutine it starts (\<open>pitr_watcher_task\<close>) waits for that cancellation, closes
  \<open>stopC\<close> and clears the slot.
\<close>

definition pitr_stream_task ::
  "'w deps \<Rightarrow> slicer \<Rightarrow> config \<Rightarrow> lock_header \<Rightarrow> nat \<Rightarrow> nat \<Rightarrow> nat \<Rightarrow> 'w agent \<Rightarrow> 'w agent" where
  "pitr_stream_task d s cfg lck stopSlicing stopC wch a =
     (let a1 = setPitr (Some \<lparr>slicer = s, w_chan = wch, cancel = stopSlicing\<rparr>) a;
          a2 = emit (EvGo (GoWatcher stopSlicing stopC)) a1
      in case call (Stream d s stopC wch (Compression (PITR cfg)) (CompressionLevel (PITR cfg))
                      (Backup_Timeouts cfg)) (EvStream s) a2 of
           (streamErr, a3) \<Rightarrow>
             (case call (Release d lck) (EvRelease lck) a3 of
                (_, a4) \<Rightarrow>
                  (let a5 = (if streamErr \<noteq> None then emit (EvSleep (pitrCheckPeriod * 2)) a4
                             else a4)
                   in emit (EvCancel stopSlicing) a5)))"

definition pitr_watcher_task :: "nat \<Rightarrow> 'w agent \<Rightarrow> 'w agent" where
  "pitr_watcher_task stopC a = removePitr (emit (EvClose stopC) a)"

subsection \<open>Reading a trace\<close>

text \<open>The calls a run has added to the trace.\<close>

definition new_events :: "'w agent \<Rightarrow> 'w agent \<Rightarrow> event list" where
  "new_events a a' = drop (length (trace a)) (trace a')"

text \<open>A fetch of the nominees that came back with an ack.\<close>

fun is_ack_fetch :: "event \<Rightarrow> bool" where
  "is_ack_fetch (EvGetPITRNominees rs (Inr nms)) = (length (Nom_Ack nms) > 0)"
| "is_ack_fetch e = False"

text \<open>Nothing follows a fetch that shows an ack.\<close>

fun ack_ends_round :: "event list \<Rightarrow> bool" where
  "ack_ends_round [] = True"
| "ack_ends_round (e # es) = (if is_ack_fetch e then es = [] else ack_ends_round es)"

text \<open>
  The calls of a nomination round, iteration by iteration. \<open>round_calls rs nodes t\<close>:
  \<open>t\<close> is, for each tier in order, a fetch of the nominees of \<open>rs\<close>; when the fetch
  ends the round (it shows an ack, or failed with an error other than not found) nothing
  follows; otherwise the update of the nominees to that tier follows directly, and then,
  when the update succeeded, the sleep of the renomination frame and the calls for the
  tiers that are left; a failed update is the last call. \<open>nomination_calls\<close> puts the
  write of the empty nomination in front.
\<close>

fun fetched :: "string \<Rightarrow> event \<Rightarrow> (err + pitr_nominees) option" where
  "fetched rs (EvGetPITRNominees rs' r) = (if rs' = rs then Some r else None)"
| "fetched rs e = None"

fun published :: "string \<Rightarrow> string list \<Rightarrow> event \<Rightarrow> err option option" where
  "published rs n (EvSetPITRNominees rs' n' res) = (if rs' = rs \<and> n' = n then Some res else None)"
| "published rs n e = None"

fun opened :: "string \<Rightarrow> event \<Rightarrow> err option option" where
  "opened rs (EvSetPITRNomination rs' res) = (if rs' = rs then Some res else None)"
| "opened rs e = None"

definition ends_round :: "err + pitr_nominees \<Rightarrow> bool" where
  "ends_round r =
     (case r of
        Inl e \<Rightarrow> \<not> errors_Is e ErrNotFound
      | Inr nms \<Rightarrow> length (Nom_Ack nms) > 0)"

fun round_calls :: "string \<Rightarrow> string list list \<Rightarrow> event list \<Rightarrow> bool" where
  "round_calls rs [] t = (t = [])"
| "round_calls rs (n # ns) [] = False"
| "round_calls rs (n # ns) (e1 # t1) =
     (case fetched rs e1 of
        None \<Rightarrow> False
      | Some r \<Rightarrow>
          if ends_round r then t1 = []
          else
            (case t1 of
               [] \<Rightarrow> False
             | e2 # t2 \<Rightarrow>
                 (case published rs n e2 of
                    None \<Rightarrow> False
                  | Some (Some e) \<Rightarrow> t2 = []
                  | Some None \<Rightarrow>
                      (case t2 of
                         [] \<Rightarrow> False
                       | e3 # t3 \<Rightarrow>
                           e3 = EvSleep pitrRenominationFrame \<and> round_calls rs ns t3))))"

definition nomination_calls :: "string \<Rightarrow> string list list \<Rightarrow> event list \<Rightarrow> bool" where
  "nomination_calls rs nodes t =
     (case t of
        [] \<Rightarrow> False
      | e # t1 \<Rightarrow>
          (case opened rs e of
             None \<Rightarrow> False
           | Some (Some err) \<Rightarrow> t1 = []
           | Some None \<Rightarrow> round_calls rs nodes t1))"

text \<open>
  The concurrency gate, read against a table \<open>bk\<close> of the backups' metadata: a lock
  permits slicing when it is a backup lock whose backup is found and is not logical; it
  blocks slicing when it is not a backup lock, or its backup is found and is logical.
  \<open>stable_backups\<close>: the lookups answer from that table while the gate runs.
\<close>

definition lock_permits :: "(string \<Rightarrow> err + backup_meta) \<Rightarrow> lock_data \<Rightarrow> bool" where
  "lock_permits bk l =
     (Lock_Type (LockHeader l) = CmdBackup \<and>
      (case bk (Lock_OPID (LockHeader l)) of
         Inl e \<Rightarrow> False
       | Inr b \<Rightarrow> Bcp_Type b \<noteq> LogicalBackup))"

definition lock_blocks :: "(string \<Rightarrow> err + backup_meta) \<Rightarrow> lock_data \<Rightarrow> bool" where
  "lock_blocks bk l =
     (Lock_Type (LockHeader l) \<noteq> CmdBackup \<or>
      (case bk (Lock_OPID (LockHeader l)) of
         Inl e \<Rightarrow> False
       | Inr b \<Rightarrow> Bcp_Type b = LogicalBackup))"

definition stable_backups :: "'w deps \<Rightarrow> (string \<Rightarrow> err + backup_meta) \<Rightarrow> bool" where
  "stable_backups d bk = (\<forall>opid w. fst (GetBackupByOPID d opid w) = bk opid)"

text \<open>
  The calls of the last part of a tick, from the acquisition of the lock on. Everything
  a tick does before (and the leader's and the nominee's polling) makes none of them.
\<close>

fun lock_stage_event :: "event \<Rightarrow> bool" where
  "lock_stage_event (EvAcquireLock h r) = True"
| "lock_stage_event (EvSetPITRNomineeACK rs n r) = True"
| "lock_stage_event (EvStorageFromConfig st r) = True"
| "lock_stage_event (EvCatchup s r) = True"
| "lock_stage_event (EvOplogOnlyCatchup s r) = True"
| "lock_stage_event (EvRelease h r) = True"
| "lock_stage_event (EvGo (GoStream s c h)) = True"
| "lock_stage_event e = False"

text \<open>
  \<open>quiet a a'\<close>: \<open>a'\<close> comes from \<open>a\<close> by calls that are not of the lock stage,
  and only the world and the trace have changed. \<open>grows\<close> asks this of the trace only.
\<close>

definition quiet :: "'w agent \<Rightarrow> 'w agent \<Rightarrow> bool" where
  "quiet a a' =
     (\<exists>wd t. a' = a\<lparr>world := wd, trace := trace a @ t\<rparr> \<and> list_all (\<lambda>e. \<not> lock_stage_event e) t)"

definition grows :: "'w agent \<Rightarrow> 'w agent \<Rightarrow> bool" where
  "grows a a' =
     (\<exists>t. trace a' = trace a @ t \<and> list_all (\<lambda>e. \<not> lock_stage_event e) t)"

text \<open>
  After every acquisition of the lock in a trace come the write of the nominee ack,
  whatever it returns, then the storage, and, when the storage is there, the catchup.
\<close>

fun ack_then_storage :: "event list \<Rightarrow> bool" where
  "ack_then_storage [] = True"
| "ack_then_storage (EvAcquireLock l (Inr True) # es) =
     (case es of
        EvSetPITRNomineeACK rs n r # EvStorageFromConfig st (Inl e) # es' \<Rightarrow> True
      | EvSetPITRNomineeACK rs n r # EvStorageFromConfig st (Inr stg) # EvCatchup s r' # es' \<Rightarrow> True
      | EvSetPITRNomineeACK rs n r # EvStorageFromConfig st (Inr stg) # EvOplogOnlyCatchup s r' # es' \<Rightarrow> True
      | _ \<Rightarrow> False)"
| "ack_then_storage (e # es) = ack_then_storage es"

text \<open>
  Two states that differ at most in the result recorded for the write of the nominee
  ack.
\<close>

fun forget_ack_result :: "event \<Rightarrow> event" where
  "forget_ack_result (EvSetPITRNomineeACK rs n r) = EvSetPITRNomineeACK rs n None"
| "forget_ack_result e = e"

definition same_but_ack :: "'w agent \<Rightarrow> 'w agent \<Rightarrow> bool" where
  "same_but_ack a a' =
     (agent_brief a = agent_brief a' \<and> pitrjob a = pitrjob a' \<and> prevOO a = prevOO a' \<and>
      world a = world a' \<and>
      map forget_ack_result (trace a) = map forget_ack_result (trace a'))"

subsection \<open>A small cluster to run the model on\<close>

text \<open>
  One replica set \<open>rs0\<close> with the nodes \<open>a\<close> and \<open>b\<close>. The world is a counter of the
  fetches of the nominees. In \<open>env0\<close> nothing fails, no lock is held, node \<open>a\<close> is
  nominated and nobody has acknowledged; a slicer that runs takes what is sent on its wake
  channel.
\<close>

definition cfg0 :: config where
  "cfg0 =
     \<lparr>PITR = \<lparr>Enabled = True, OplogOnly = False, Priority = [(''a'', 2), (''b'', 1)],
              Compression = ''s2'', CompressionLevel = None\<rparr>,
      Storage = ''s3'', Backup_Timeouts = None, Epoch = \<lparr>ts_T = 7, ts_I = 1\<rparr>\<rparr>"

definition env0 :: "nat deps" where
  "env0 =
     \<lparr>GetConfig = (\<lambda>n. (Inr cfg0, n)),
      OplogSlicerInterval = (\<lambda>c. 60 * second),
      GetLocks = (\<lambda>h n. (Inr [], n)),
      GetBackupByOPID = (\<lambda>opid n. (Inl ErrNotFound, n)),
      GetClusterTime = (\<lambda>n. (Inr \<lparr>ts_T = 1000, ts_I = 0\<rparr>, n)),
      GetOpLockData = (\<lambda>h n. (Inl ErrNoDocuments, n)),
      StaleFrameSec = 30,
      GetNodeInfoExt =
        (\<lambda>n. (Inr \<lparr>NI_SetName = ''rs0'', NI_Me = ''a'', NI_IsClusterLeader = False\<rparr>, n)),
      NodeSuits = (\<lambda>i n. (Inr True, n)),
      IsOplogSlicing = (\<lambda>n. (Inr False, n)),
      InitMeta = (\<lambda>n. (None, n)),
      ListAgentStatuses = (\<lambda>n. (Inr [''a'', ''b''], n)),
      CalcNodesPriority = (\<lambda>p ags n. (Inr 0, n)),
      NodesRS = (\<lambda>h rs. [[''a''], [''b'']]),
      ClusterMembers = (\<lambda>n. (Inr [\<lparr>Shard_RS = ''rs0''\<rparr>], n)),
      SetPITRNomination = (\<lambda>rs n. (None, n)),
      GetPITRNominees =
        (\<lambda>rs n. (Inr \<lparr>Nom_RS = rs, Nom_Nodes = [''a''], Nom_Ack = []\<rparr>, Suc n)),
      SetPITRNominees = (\<lambda>rs ns n. (None, n)),
      SetPITRNomineeACK = (\<lambda>rs node n. (None, n)),
      GetClusterStatus = (\<lambda>n. (Inr StatusReady, n)),
      SetReadyRSStatus = (\<lambda>rs node n. (None, n)),
      acquireLock = (\<lambda>h n. (Inr True, n)),
      Release = (\<lambda>h n. (None, n)),
      StorageFromConfig = (\<lambda>st n. (Inr st, n)),
      NewSlicer = (\<lambda>rs stg c. \<lparr>Slicer_RS = rs, Slicer_Storage = stg, span = 0\<rparr>),
      Catchup = (\<lambda>s n. (None, n)),
      OplogOnlyCatchup = (\<lambda>s n. (None, n)),
      Stream = (\<lambda>s stopC wch c lvl tmo n. (None, n)),
      Receives = (\<lambda>ch op n. (True, n)),
      opLockTicks = 8,
      readyTicks = 3,
      nominationTicks = 3\<rparr>"

text \<open>The same cluster, where the second and later fetches show the ack of \<open>a\<close>.\<close>

definition env_ack :: "nat deps" where
  "env_ack = env0
     \<lparr>GetPITRNominees :=
        (\<lambda>rs n. (Inr \<lparr>Nom_RS = rs, Nom_Nodes = [''a''],
                       Nom_Ack = (if 1 \<le> n then ''a'' else [])\<rparr>, Suc n))\<rparr>"

definition agent0 :: "nat agent" where
  "agent0 =
     \<lparr>agent_brief = \<lparr>SetName = ''rs0'', Me = ''a''\<rparr>, pitrjob = None, prevOO = None,
      world = 0, trace = []\<rparr>"

text \<open>An agent whose slicer runs with a span of ten minutes.\<close>

definition handle0 :: currentPitr where
  "handle0 =
     \<lparr>slicer = \<lparr>Slicer_RS = ''rs0'', Slicer_Storage = ''s3'', span = 600 * second\<rparr>,
      w_chan = 1, cancel = 2\<rparr>"

definition agent_slicing :: "nat agent" where
  "agent_slicing = agent0\<lparr>pitrjob := Some handle0, prevOO := Some False\<rparr>"

text \<open>Locks and backups for the concurrency gate.\<close>

definition lock_physical :: lock_data where
  "lock_physical =
     \<lparr>LockHeader = \<lparr>Lock_Type = CmdBackup, Lock_Replset = ''rs0'', Lock_Node = ''b'',
                     Lock_OPID = ''op1'', Lock_Epoch = None\<rparr>,
      Heartbeat = \<lparr>ts_T = 990, ts_I = 0\<rparr>\<rparr>"

definition lock_logical :: lock_data where
  "lock_logical =
     \<lparr>LockHeader = \<lparr>Lock_Type = CmdBackup, Lock_Replset = ''rs0'', Lock_Node = ''b'',
                     Lock_OPID = ''op2'', Lock_Epoch = None\<rparr>,
      Heartbeat = \<lparr>ts_T = 991, ts_I = 0\<rparr>\<rparr>"

definition lock_restore :: lock_data where
  "lock_restore =
     \<lparr>LockHeader = \<lparr>Lock_Type = CmdOther ''restore'', Lock_Replset = ''rs0'', Lock_Node = ''a'',
                     Lock_OPID = ''op3'', Lock_Epoch = None\<rparr>,
      Heartbeat = \<lparr>ts_T = 992, ts_I = 0\<rparr>\<rparr>"

definition lock_unknown :: lock_data where
  "lock_unknown =
     \<lparr>LockHeader = \<lparr>Lock_Type = CmdBackup, Lock_Replset = ''rs0'', Lock_Node = ''b'',
                     Lock_OPID = ''op9'', Lock_Epoch = None\<rparr>,
      Heartbeat = \<lparr>ts_T = 993, ts_I = 0\<rparr>\<rparr>"

definition backups0 :: "string \<Rightarrow> err + backup_meta" where
  "backups0 opid =
     (if opid = ''op1'' then Inr \<lparr>Bcp_Name = ''bcp1'', Bcp_Type = PhysicalBackup\<rparr>
      else if opid = ''op2'' then Inr \<lparr>Bcp_Name = ''bcp2'', Bcp_Type = LogicalBackup\<rparr>
      else Inl ErrNotFound)"

definition env_gate :: "lock_data list \<Rightarrow> nat deps" where
  "env_gate locks = env0
     \<lparr>GetLocks := (\<lambda>h n. (Inr locks, n)),
      GetBackupByOPID := (\<lambda>opid n. (backups0 opid, n))\<rparr>"

text \<open>
  The PITR lock of \<open>rs0\<close> held by node \<open>b\<close> with heartbeat \<open>h\<close>, read at
  cluster time \<open>t\<close>; and a cluster where the stream of the slicer breaks.
\<close>

definition env_lock :: "32 word \<Rightarrow> 32 word \<Rightarrow> nat deps" where
  "env_lock h t = env0
     \<lparr>GetClusterTime := (\<lambda>n. (Inr \<lparr>ts_T = t, ts_I = 0\<rparr>, n)),
      GetOpLockData :=
        (\<lambda>hd n. (Inr \<lparr>LockHeader = hd\<lparr>Lock_Node := ''b''\<rparr>, Heartbeat = \<lparr>ts_T = h, ts_I = 5\<rparr>\<rparr>, n))\<rparr>"

definition env_stream_fails :: "nat deps" where
  "env_stream_fails = env0
     \<lparr>Stream := (\<lambda>s stopC wch c lvl tmo n. (Some (ErrNew ''oplog cursor closed''), n))\<rparr>"

text \<open>A cluster with no config, no nomination and no cluster status yet.\<close>

definition env_empty :: "nat deps" where
  "env_empty = env0
     \<lparr>GetConfig := (\<lambda>n. (Inl ErrNoDocuments, n)),
      GetPITRNominees := (\<lambda>rs n. (Inl (Wrap ErrNotFound ''get meta''), Suc n)),
      GetClusterStatus := (\<lambda>n. (Inl ErrNotFound, n))\<rparr>"


text \<open>Clusters where the catchup fails, and where the write of the ack fails.\<close>

definition env_catchup_fails :: "nat deps" where
  "env_catchup_fails = env0
     \<lparr>Catchup := (\<lambda>s n. (Some (ErrNew ''no backup found''), n))\<rparr>"

definition env_ack_write_fails :: "nat deps" where
  "env_ack_write_fails = env0
     \<lparr>SetPITRNomineeACK := (\<lambda>rs node n. (Some (ErrNew ''not primary''), n))\<rparr>"

section \<open>Properties\<close>

subsection \<open>The oplog-only watchdog\<close>

text \<open>
  C10. The first call of \<open>stopPitrOnOplogOnlyChange\<close> (nothing remembered) records the
  value it is given and leaves the slicer slot alone, without cancelling anything. A call
  with the remembered value changes nothing at all. A call with the other value
  remembers it and clears the slot, cancelling the handle that was there. The slot
  changes in that last case only.
\<close>

theorem stopPitrOnOplogOnlyChange_cases:
  "(prevOO a = None \<longrightarrow>
      stopPitrOnOplogOnlyChange v a = a\<lparr>prevOO := Some v\<rparr>)
   \<and> (prevOO a = Some v \<longrightarrow> stopPitrOnOplogOnlyChange v a = a)
   \<and> (prevOO a = Some (\<not> v) \<longrightarrow>
        prevOO (stopPitrOnOplogOnlyChange v a) = Some v
        \<and> pitrjob (stopPitrOnOplogOnlyChange v a) = None
        \<and> trace (stopPitrOnOplogOnlyChange v a) =
            trace a @ (case pitrjob a of None \<Rightarrow> [] | Some p \<Rightarrow> [EvCancel (cancel p)]))
   \<and> (pitrjob (stopPitrOnOplogOnlyChange v a) \<noteq> pitrjob a \<longrightarrow> prevOO a = Some (\<not> v))"
  by (auto simp: stopPitrOnOplogOnlyChange_def removePitr_def setPitr_def emit_def
      split: option.splits)

theorem stopPitrOnOplogOnlyChange_cases_witness:
  "prevOO (agent0\<lparr>pitrjob := Some handle0\<rparr>) = None
   \<and> stopPitrOnOplogOnlyChange True (agent0\<lparr>pitrjob := Some handle0\<rparr>) =
       agent0\<lparr>pitrjob := Some handle0, prevOO := Some True\<rparr>
   \<and> prevOO agent_slicing = Some False
   \<and> stopPitrOnOplogOnlyChange False agent_slicing = agent_slicing
   \<and> pitrjob (stopPitrOnOplogOnlyChange True agent_slicing) = None
   \<and> prevOO (stopPitrOnOplogOnlyChange True agent_slicing) = Some True
   \<and> trace (stopPitrOnOplogOnlyChange True agent_slicing) = [EvCancel 2]
   \<and> pitrjob (stopPitrOnOplogOnlyChange True agent_slicing) \<noteq> pitrjob agent_slicing"
  using stopPitrOnOplogOnlyChange_cases [of "agent0\<lparr>pitrjob := Some handle0\<rparr>" True]
    stopPitrOnOplogOnlyChange_cases [of agent_slicing False]
    stopPitrOnOplogOnlyChange_cases [of agent_slicing True]
  by (simp add: agent_slicing_def agent0_def handle0_def)

subsection \<open>The nomination round\<close>

lemma nominate_tiers_trace:
  "\<exists>t. trace (snd (nominate_tiers d rs ns a)) = trace a @ t \<and> ack_ends_round t
       \<and> (list_ex is_ack_fetch t \<longrightarrow> fst (nominate_tiers d rs ns a) = None)"
proof (induction ns arbitrary: a)
  case Nil
  show ?case by simp
next
  case (Cons n ns)
  obtain r w1 where g: "GetPITRNominees d rs (world a) = (r, w1)"
    by (cases "GetPITRNominees d rs (world a)")
  let ?a1 = "a\<lparr>world := w1, trace := trace a @ [EvGetPITRNominees rs r]\<rparr>"
  obtain r2 w2 where s: "SetPITRNominees d rs n w1 = (r2, w2)"
    by (cases "SetPITRNominees d rs n w1")
  let ?a2 = "?a1\<lparr>world := w2, trace := trace ?a1 @ [EvSetPITRNominees rs n r2]\<rparr>"
  let ?a3 = "emit (EvSleep pitrRenominationFrame) ?a2"
  from Cons.IH [of ?a3] obtain t where
    t: "trace (snd (nominate_tiers d rs ns ?a3)) = trace ?a3 @ t" "ack_ends_round t"
       "list_ex is_ack_fetch t \<longrightarrow> fst (nominate_tiers d rs ns ?a3) = None"
    by blast
  show ?case
  proof (cases r)
    case (Inl e)
    show ?thesis
    proof (cases "errors_Is e ErrNotFound")
      case False
      with Inl g show ?thesis by (simp add: call_def)
    next
      case True
      show ?thesis
      proof (cases r2)
        case None
        with True Inl g s t show ?thesis
          by (simp add: call_def emit_def)
      next
        case (Some e')
        with True Inl g s show ?thesis by (simp add: call_def)
      qed
    qed
  next
    case (Inr nms)
    show ?thesis
    proof (cases "length (Nom_Ack nms) > 0")
      case True
      with Inr g show ?thesis by (simp add: call_def)
    next
      case False
      show ?thesis
      proof (cases r2)
        case None
        with False Inr g s t show ?thesis
          by (simp add: call_def emit_def)
      next
        case (Some e')
        with False Inr g s show ?thesis by (simp add: call_def)
      qed
    qed
  qed
qed

lemma nominate_tiers_round:
  "\<exists>t. trace (snd (nominate_tiers d rs ns a)) = trace a @ t \<and> round_calls rs ns t"
proof (induction ns arbitrary: a)
  case Nil
  show ?case by simp
next
  case (Cons n ns)
  obtain r w1 where g: "GetPITRNominees d rs (world a) = (r, w1)"
    by (cases "GetPITRNominees d rs (world a)")
  let ?a1 = "a\<lparr>world := w1, trace := trace a @ [EvGetPITRNominees rs r]\<rparr>"
  obtain r2 w2 where s: "SetPITRNominees d rs n w1 = (r2, w2)"
    by (cases "SetPITRNominees d rs n w1")
  let ?a2 = "?a1\<lparr>world := w2, trace := trace ?a1 @ [EvSetPITRNominees rs n r2]\<rparr>"
  let ?a3 = "emit (EvSleep pitrRenominationFrame) ?a2"
  from Cons.IH [of ?a3] obtain t where
    t: "trace (snd (nominate_tiers d rs ns ?a3)) = trace ?a3 @ t" "round_calls rs ns t"
    by blast
  show ?case
  proof (cases r)
    case (Inl e)
    show ?thesis
    proof (cases "errors_Is e ErrNotFound")
      case False
      with Inl g show ?thesis by (simp add: call_def ends_round_def)
    next
      case True
      show ?thesis
      proof (cases r2)
        case None
        with True Inl g s t show ?thesis
          by (simp add: call_def emit_def ends_round_def)
      next
        case (Some e')
        with True Inl g s show ?thesis by (simp add: call_def ends_round_def)
      qed
    qed
  next
    case (Inr nms)
    show ?thesis
    proof (cases "length (Nom_Ack nms) > 0")
      case True
      with Inr g show ?thesis by (simp add: call_def ends_round_def)
    next
      case False
      show ?thesis
      proof (cases r2)
        case None
        with False Inr g s t show ?thesis
          by (simp add: call_def emit_def ends_round_def)
      next
        case (Some e')
        with False Inr g s show ?thesis by (simp add: call_def ends_round_def)
      qed
    qed
  qed
qed

text \<open>
  C1. The calls of a round of \<open>nominateRSForPITR\<close> are, after the write of the empty
  nomination, those of \<open>round_calls\<close>: every iteration starts with a fetch of the
  nominees, an update of the nominees comes only directly after a fetch that shows no
  ack, and a fetch that shows an ack is the last call of the round: no
  \<open>SetPITRNominees\<close> follows it, for the current tier or a later one, and the round
  returns nil. In the loop itself, when the fetched ack is not empty the function
  returns nil after that one call, whatever tiers are left.
\<close>

theorem nominateRSForPITR_ack_stops:
  "nomination_calls rs nodes (new_events a (snd (nominateRSForPITR d rs nodes a)))
   \<and> ack_ends_round (new_events a (snd (nominateRSForPITR d rs nodes a)))
   \<and> (list_ex is_ack_fetch (new_events a (snd (nominateRSForPITR d rs nodes a)))
        \<longrightarrow> fst (nominateRSForPITR d rs nodes a) = None)
   \<and> (\<forall>b nms w1 n ns.
        GetPITRNominees d rs (world b) = (Inr nms, w1) \<and> length (Nom_Ack nms) > 0
        \<longrightarrow> nominate_tiers d rs (n # ns) b =
            (None, b\<lparr>world := w1, trace := trace b @ [EvGetPITRNominees rs (Inr nms)]\<rparr>))"
proof -
  obtain r w1 where g: "SetPITRNomination d rs (world a) = (r, w1)"
    by (cases "SetPITRNomination d rs (world a)")
  let ?a1 = "a\<lparr>world := w1, trace := trace a @ [EvSetPITRNomination rs r]\<rparr>"
  obtain t where
    t: "trace (snd (nominate_tiers d rs nodes ?a1)) = trace ?a1 @ t" "ack_ends_round t"
       "list_ex is_ack_fetch t \<longrightarrow> fst (nominate_tiers d rs nodes ?a1) = None"
    using nominate_tiers_trace [of d rs nodes ?a1] by blast
  obtain t' where
    t': "trace (snd (nominate_tiers d rs nodes ?a1)) = trace ?a1 @ t'" "round_calls rs nodes t'"
    using nominate_tiers_round [of d rs nodes ?a1] by blast
  have "nomination_calls rs nodes (new_events a (snd (nominateRSForPITR d rs nodes a)))"
  proof (cases r)
    case None
    with g t' show ?thesis
      by (simp add: nominateRSForPITR_def call_def new_events_def nomination_calls_def)
  next
    case (Some e)
    with g show ?thesis
      by (simp add: nominateRSForPITR_def call_def new_events_def nomination_calls_def)
  qed
  moreover
  have "ack_ends_round (new_events a (snd (nominateRSForPITR d rs nodes a)))
   \<and> (list_ex is_ack_fetch (new_events a (snd (nominateRSForPITR d rs nodes a)))
        \<longrightarrow> fst (nominateRSForPITR d rs nodes a) = None)"
  proof (cases r)
    case None
    with g t show ?thesis
      by (simp add: nominateRSForPITR_def call_def new_events_def)
  next
    case (Some e)
    with g show ?thesis
      by (simp add: nominateRSForPITR_def call_def new_events_def)
  qed
  ultimately show ?thesis by (auto simp: call_def)
qed

theorem nominateRSForPITR_ack_stops_witness:
  "new_events agent0 (snd (nominateRSForPITR env_ack ''rs0'' [[''a''], [''b''], [''c'']] agent0)) =
     [EvSetPITRNomination ''rs0'' None,
      EvGetPITRNominees ''rs0'' (Inr \<lparr>Nom_RS = ''rs0'', Nom_Nodes = [''a''], Nom_Ack = []\<rparr>),
      EvSetPITRNominees ''rs0'' [''a''] None,
      EvSleep 5000000000,
      EvGetPITRNominees ''rs0'' (Inr \<lparr>Nom_RS = ''rs0'', Nom_Nodes = [''a''], Nom_Ack = ''a''\<rparr>)]
   \<and> nomination_calls ''rs0'' [[''a''], [''b''], [''c'']]
       (new_events agent0 (snd (nominateRSForPITR env_ack ''rs0'' [[''a''], [''b''], [''c'']] agent0)))
   \<and> ack_ends_round
       (new_events agent0 (snd (nominateRSForPITR env_ack ''rs0'' [[''a''], [''b''], [''c'']] agent0)))
   \<and> fst (nominateRSForPITR env_ack ''rs0'' [[''a''], [''b''], [''c'']] agent0) = None"
  using nominateRSForPITR_ack_stops [of "''rs0''" "[[''a''], [''b''], [''c'']]" agent0 env_ack]
  by (simp add: nominateRSForPITR_def call_def emit_def new_events_def env_ack_def env0_def
      agent0_def pitrRenominationFrame_def second_def nomination_calls_def ends_round_def)

subsection \<open>The concurrency gate\<close>

lemma stable_backupsD:
  "stable_backups d bk \<Longrightarrow> GetBackupByOPID d opid w = (r, w1) \<Longrightarrow> bk opid = r"
  unfolding stable_backups_def by (metis fst_conv)

lemma canSlicingNow_locks_nil_iff:
  assumes "stable_backups d bk"
  shows "(fst (canSlicingNow_locks d locks a) = None) = (\<forall>l\<in>set locks. lock_permits bk l)"
proof (induction locks arbitrary: a)
  case Nil
  show ?case by simp
next
  case (Cons l ls)
  obtain r w1 where g: "GetBackupByOPID d (Lock_OPID (LockHeader l)) (world a) = (r, w1)"
    by (cases "GetBackupByOPID d (Lock_OPID (LockHeader l)) (world a)")
  from assms g have r: "bk (Lock_OPID (LockHeader l)) = r"
    by (rule stable_backupsD)
  show ?case
    using g r Cons.IH
    by (cases r) (auto simp: call_def lock_permits_def)
qed

lemma canSlicingNow_locks_skip:
  assumes "stable_backups d bk" and "\<forall>x\<in>set pre. lock_permits bk x"
  shows "\<exists>a'. canSlicingNow_locks d (pre @ rest) a = canSlicingNow_locks d rest a'"
  using assms(2)
proof (induction pre arbitrary: a)
  case Nil
  show ?case by auto
next
  case (Cons l ls)
  obtain r w1 where g: "GetBackupByOPID d (Lock_OPID (LockHeader l)) (world a) = (r, w1)"
    by (cases "GetBackupByOPID d (Lock_OPID (LockHeader l)) (world a)")
  from assms(1) g have r: "bk (Lock_OPID (LockHeader l)) = r"
    by (rule stable_backupsD)
  from Cons.prems have p: "lock_permits bk l" and ps: "\<forall>x\<in>set ls. lock_permits bk x"
    by simp_all
  from p r obtain b where b: "r = Inr b" "Bcp_Type b \<noteq> LogicalBackup"
    "Lock_Type (LockHeader l) = CmdBackup"
    by (cases r) (auto simp: lock_permits_def)
  show ?case
    using g b Cons.IH [OF ps] by (simp add: call_def)
qed

lemma canSlicingNow_locks_blocked:
  assumes "stable_backups d bk" and "lock_blocks bk l"
  shows "fst (canSlicingNow_locks d (l # post) a) = Some (ConcurrentOpError (LockHeader l))"
proof -
  obtain r w1 where g: "GetBackupByOPID d (Lock_OPID (LockHeader l)) (world a) = (r, w1)"
    by (cases "GetBackupByOPID d (Lock_OPID (LockHeader l)) (world a)")
  from assms(1) g have r: "bk (Lock_OPID (LockHeader l)) = r"
    by (rule stable_backupsD)
  show ?thesis
    using g r assms(2) by (cases r) (auto simp: call_def lock_blocks_def)
qed

lemma canSlicingNow_locks_lookup_failed:
  assumes "stable_backups d bk" and "Lock_Type (LockHeader l) = CmdBackup"
    and "bk (Lock_OPID (LockHeader l)) = Inl e"
  shows "fst (canSlicingNow_locks d (l # post) a) = Some (Wrap e ''get backup metadata'')"
proof -
  obtain r w1 where g: "GetBackupByOPID d (Lock_OPID (LockHeader l)) (world a) = (r, w1)"
    by (cases "GetBackupByOPID d (Lock_OPID (LockHeader l)) (world a)")
  from assms(1) g have r: "bk (Lock_OPID (LockHeader l)) = r"
    by (rule stable_backupsD)
  show ?thesis
    using g r assms(2,3) by (auto simp: call_def)
qed

text \<open>
  C2 (amended). When the lookups of backup metadata answer from a table \<open>bk\<close>, the
  gate returns nil exactly when every lock read is a backup lock whose backup is found
  and is not logical. Otherwise the first lock in list order that does not permit
  slicing decides: when it is not a backup lock or its backup is logical, the gate
  returns \<open>ConcurrentOpError\<close> with that lock's header; when the lookup of its backup
  failed, the gate returns that error wrapped as "get backup metadata".
\<close>

theorem canSlicingNow_first_blocking_lock:
  assumes "stable_backups d bk"
    and "GetLocks d emptyLockHeader (world a) = (Inr locks, w1)"
  shows "(fst (canSlicingNow d a) = None \<longleftrightarrow> (\<forall>l\<in>set locks. lock_permits bk l))
     \<and> (\<forall>pre l post. locks = pre @ l # post \<and> (\<forall>x\<in>set pre. lock_permits bk x) \<and> lock_blocks bk l
          \<longrightarrow> fst (canSlicingNow d a) = Some (ConcurrentOpError (LockHeader l)))
     \<and> (\<forall>pre l post e. locks = pre @ l # post \<and> (\<forall>x\<in>set pre. lock_permits bk x)
            \<and> Lock_Type (LockHeader l) = CmdBackup \<and> bk (Lock_OPID (LockHeader l)) = Inl e
          \<longrightarrow> fst (canSlicingNow d a) = Some (Wrap e ''get backup metadata''))"
proof -
  let ?a1 = "a\<lparr>world := w1, trace := trace a @ [EvGetLocks emptyLockHeader (Inr locks)]\<rparr>"
  have c: "canSlicingNow d a = canSlicingNow_locks d locks ?a1"
    using assms(2) by (simp add: canSlicingNow_def call_def)
  have 1: "fst (canSlicingNow d a) = None \<longleftrightarrow> (\<forall>l\<in>set locks. lock_permits bk l)"
    using canSlicingNow_locks_nil_iff [OF assms(1)] c by simp
  have 2: "fst (canSlicingNow d a) = Some (ConcurrentOpError (LockHeader l))"
    if h1: "locks = pre @ l # post" and h2: "\<forall>x\<in>set pre. lock_permits bk x"
      and h3: "lock_blocks bk l"
    for pre l post
  proof -
    obtain a' where "canSlicingNow_locks d (pre @ l # post) ?a1 = canSlicingNow_locks d (l # post) a'"
      using canSlicingNow_locks_skip [OF assms(1) h2] by blast
    then show ?thesis
      using c h1 canSlicingNow_locks_blocked [OF assms(1) h3] by simp
  qed
  have 3: "fst (canSlicingNow d a) = Some (Wrap e ''get backup metadata'')"
    if h1: "locks = pre @ l # post" and h2: "\<forall>x\<in>set pre. lock_permits bk x"
      and h3: "Lock_Type (LockHeader l) = CmdBackup"
      and h4: "bk (Lock_OPID (LockHeader l)) = Inl e"
    for pre l post e
  proof -
    obtain a' where "canSlicingNow_locks d (pre @ l # post) ?a1 = canSlicingNow_locks d (l # post) a'"
      using canSlicingNow_locks_skip [OF assms(1) h2] by blast
    then show ?thesis
      using c h1 canSlicingNow_locks_lookup_failed [OF assms(1) h3 h4] by simp
  qed
  from 1 2 3 show ?thesis by blast
qed

theorem canSlicingNow_first_blocking_lock_witness:
  "stable_backups (env_gate [lock_physical, lock_logical, lock_restore]) backups0
   \<and> lock_permits backups0 lock_physical
   \<and> lock_blocks backups0 lock_logical
   \<and> fst (canSlicingNow (env_gate [lock_physical, lock_logical, lock_restore]) agent0) =
       Some (ConcurrentOpError (LockHeader lock_logical))
   \<and> fst (canSlicingNow (env_gate [lock_physical]) agent0) = None"
  using canSlicingNow_first_blocking_lock
      [of "env_gate [lock_physical, lock_logical, lock_restore]" backups0 agent0
          "[lock_physical, lock_logical, lock_restore]" 0]
    canSlicingNow_first_blocking_lock
      [of "env_gate [lock_physical]" backups0 agent0 "[lock_physical]" 0]
  by (simp add: stable_backups_def lock_permits_def lock_blocks_def env_gate_def env0_def
      agent0_def backups0_def lock_physical_def lock_logical_def lock_restore_def
      canSlicingNow_def call_def emptyLockHeader_def)

text \<open>
  C2 as stated fails: with a backup lock whose metadata cannot be read in front of a
  restore lock, the gate returns the wrapped lookup error, not \<open>ConcurrentOpError\<close>
  with the restore lock's header.
\<close>

theorem canSlicingNow_counterexample:
  "Lock_Type (LockHeader lock_restore) \<noteq> CmdBackup
   \<and> fst (canSlicingNow (env_gate [lock_unknown, lock_restore]) agent0) =
       Some (Wrap ErrNotFound ''get backup metadata'')
   \<and> fst (canSlicingNow (env_gate [lock_unknown, lock_restore]) agent0) \<noteq>
       Some (ConcurrentOpError (LockHeader lock_restore))"
  by (simp add: env_gate_def env0_def agent0_def backups0_def lock_unknown_def
      lock_restore_def canSlicingNow_def call_def emptyLockHeader_def)

subsection \<open>Tiers of the nomination\<close>

text \<open>
  C8 (amended). The loop treats an empty tier like any other: whatever the tier \<open>n\<close>
  is, when the fetch shows no ack (or finds no document) and the update succeeds, the
  iteration publishes \<open>n\<close> as the nominees and sleeps the renomination frame before
  it goes on to the next tier.
\<close>

theorem nominate_tiers_publishes_and_sleeps:
  assumes "GetPITRNominees d rs (world a) = (r, w1)"
    and "case r of Inl e \<Rightarrow> errors_Is e ErrNotFound | Inr nms \<Rightarrow> length (Nom_Ack nms) = 0"
    and "SetPITRNominees d rs n w1 = (None, w2)"
  shows "nominate_tiers d rs (n # ns) a =
     nominate_tiers d rs ns
       (a\<lparr>world := w2,
          trace := trace a @ [EvGetPITRNominees rs r, EvSetPITRNominees rs n None,
                              EvSleep pitrRenominationFrame]\<rparr>)"
  using assms by (cases r) (simp_all add: call_def emit_def)

theorem nominate_tiers_publishes_and_sleeps_witness:
  "GetPITRNominees env0 ''rs0'' (world agent0) =
     (Inr \<lparr>Nom_RS = ''rs0'', Nom_Nodes = [''a''], Nom_Ack = []\<rparr>, 1)
   \<and> SetPITRNominees env0 ''rs0'' [] 1 = (None, 1)
   \<and> nominate_tiers env0 ''rs0'' [[], [''b'']] agent0 =
       nominate_tiers env0 ''rs0'' [[''b'']]
         (agent0\<lparr>world := 1,
            trace := [EvGetPITRNominees ''rs0'' (Inr \<lparr>Nom_RS = ''rs0'', Nom_Nodes = [''a''], Nom_Ack = []\<rparr>),
                      EvSetPITRNominees ''rs0'' [] None, EvSleep 5000000000]\<rparr>)"
  using nominate_tiers_publishes_and_sleeps
    [of env0 "''rs0''" agent0 "Inr \<lparr>Nom_RS = ''rs0'', Nom_Nodes = [''a''], Nom_Ack = []\<rparr>" 1 "[]" 1
      "[[''b'']]"]
  by (simp add: env0_def agent0_def pitrRenominationFrame_def second_def)

text \<open>
  C8 as stated fails: for the tiers \<open>[[], [b]]\<close> the round publishes the empty list
  and sleeps five seconds before it offers \<open>[b]\<close>.
\<close>

theorem nominate_empty_tier_counterexample:
  "new_events agent0 (snd (nominateRSForPITR env0 ''rs0'' [[], [''b'']] agent0)) =
     [EvSetPITRNomination ''rs0'' None,
      EvGetPITRNominees ''rs0'' (Inr \<lparr>Nom_RS = ''rs0'', Nom_Nodes = [''a''], Nom_Ack = []\<rparr>),
      EvSetPITRNominees ''rs0'' [] None,
      EvSleep 5000000000,
      EvGetPITRNominees ''rs0'' (Inr \<lparr>Nom_RS = ''rs0'', Nom_Nodes = [''a''], Nom_Ack = []\<rparr>),
      EvSetPITRNominees ''rs0'' [''b''] None,
      EvSleep 5000000000]
   \<and> pitrRenominationFrame = 5000000000"
  by (simp add: nominateRSForPITR_def call_def emit_def new_events_def env0_def
      agent0_def pitrRenominationFrame_def second_def)

subsection \<open>The stale-lock pre-check\<close>

text \<open>
  C3. Once the cluster time \<open>T\<close> is read, the pre-check answers \<open>true\<close> exactly when
  the lock document is not found or \<open>H + StaleFrameSec < T\<close> for the heartbeat \<open>H\<close> of
  the lock read, the sum being the 32-bit sum the code computes. At
  \<open>H + StaleFrameSec = T\<close> the answer is \<open>false\<close>, at a strictly greater \<open>T\<close> it is
  \<open>true\<close>. Where the sum does not wrap around, this is the comparison of the numbers.
\<close>

theorem pitrLockCheck_move_on:
  assumes "GetClusterTime d (world a) = (Inr ts, w1)"
    and "GetOpLockData d (pitrLockHeader a) w1 = (r, w2)"
  shows "(fst (pitrLockCheck d a) = Inr True \<longleftrightarrow>
            (\<exists>e. r = Inl e \<and> errors_Is e ErrNoDocuments)
            \<or> (\<exists>lk. r = Inr lk \<and> ts_T (Heartbeat lk) + StaleFrameSec d < ts_T ts))
     \<and> (\<forall>lk. r = Inr lk \<and> ts_T (Heartbeat lk) + StaleFrameSec d = ts_T ts
           \<longrightarrow> fst (pitrLockCheck d a) = Inr False)
     \<and> (\<forall>lk. r = Inr lk \<and> ts_T (Heartbeat lk) + StaleFrameSec d < ts_T ts
           \<longrightarrow> fst (pitrLockCheck d a) = Inr True)
     \<and> (\<forall>lk. r = Inr lk \<and> unat (ts_T (Heartbeat lk)) + unat (StaleFrameSec d) < 2 ^ 32
           \<longrightarrow> (fst (pitrLockCheck d a) = Inr True \<longleftrightarrow>
                unat (ts_T (Heartbeat lk)) + unat (StaleFrameSec d) < unat (ts_T ts)))"
proof (cases r)
  case (Inl e)
  with assms show ?thesis by (simp add: pitrLockCheck_def call_def)
next
  case (Inr lk)
  have u: "(ts_T (Heartbeat lk) + StaleFrameSec d < ts_T ts) =
           (unat (ts_T (Heartbeat lk)) + unat (StaleFrameSec d) < unat (ts_T ts))"
    if "unat (ts_T (Heartbeat lk)) + unat (StaleFrameSec d) < 2 ^ 32"
    using that by (simp add: word_less_nat_alt unat_word_ariths)
  from Inr assms u show ?thesis by (simp add: pitrLockCheck_def call_def)
qed

theorem pitrLockCheck_move_on_witness:
  "fst (pitrLockCheck (env_lock 970 1000) agent0) = Inr False
   \<and> fst (pitrLockCheck (env_lock 970 1001) agent0) = Inr True
   \<and> fst (pitrLockCheck env0 agent0) = Inr True"
  using pitrLockCheck_move_on [of "env_lock 970 1000" agent0 "\<lparr>ts_T = 1000, ts_I = 0\<rparr>" 0
      "Inr \<lparr>LockHeader = (pitrLockHeader agent0)\<lparr>Lock_Node := ''b''\<rparr>,
            Heartbeat = \<lparr>ts_T = 970, ts_I = 5\<rparr>\<rparr>" 0]
    pitrLockCheck_move_on [of "env_lock 970 1001" agent0 "\<lparr>ts_T = 1001, ts_I = 0\<rparr>" 0
      "Inr \<lparr>LockHeader = (pitrLockHeader agent0)\<lparr>Lock_Node := ''b''\<rparr>,
            Heartbeat = \<lparr>ts_T = 970, ts_I = 5\<rparr>\<rparr>" 0]
    pitrLockCheck_move_on [of env0 agent0 "\<lparr>ts_T = 1000, ts_I = 0\<rparr>" 0 "Inl ErrNoDocuments" 0]
  by (simp add: env_lock_def env0_def agent0_def)

subsection \<open>The streaming goroutine\<close>

text \<open>
  C6. The calls of the streaming goroutine, in order: the handle is installed
  (cancelling an older one), the watcher is started, \<open>Stream\<close> runs, the lock is
  released, and only then, and only when \<open>Stream\<close> returned an error, the goroutine
  sleeps \<open>pitrCheckPeriod * 2\<close>; the deferred cancel comes last.
\<close>

theorem pitr_stream_task_release_before_sleep:
  assumes "Stream d s stopC wch (Compression (PITR cfg)) (CompressionLevel (PITR cfg))
             (Backup_Timeouts cfg) (world a) = (streamErr, w1)"
    and "Release d lck w1 = (relErr, w2)"
  shows "new_events a (pitr_stream_task d s cfg lck stopSlicing stopC wch a) =
     (case pitrjob a of None \<Rightarrow> [] | Some old \<Rightarrow> [EvCancel (cancel old)]) @
     [EvGo (GoWatcher stopSlicing stopC), EvStream s streamErr, EvRelease lck relErr] @
     (if streamErr \<noteq> None then [EvSleep (pitrCheckPeriod * 2)] else []) @
     [EvCancel stopSlicing]"
  using assms
  by (simp add: pitr_stream_task_def setPitr_def call_def emit_def new_events_def
      split: option.splits)

theorem pitr_stream_task_release_before_sleep_witness:
  "new_events agent0
     (pitr_stream_task env_stream_fails (slicer handle0) cfg0 (pitrOpLock cfg0 agent0) 2 3 1 agent0) =
     [EvGo (GoWatcher 2 3), EvStream (slicer handle0) (Some (ErrNew ''oplog cursor closed'')),
      EvRelease (pitrOpLock cfg0 agent0) None, EvSleep 30000000000, EvCancel 2]
   \<and> new_events agent0
     (pitr_stream_task env0 (slicer handle0) cfg0 (pitrOpLock cfg0 agent0) 2 3 1 agent0) =
     [EvGo (GoWatcher 2 3), EvStream (slicer handle0) None,
      EvRelease (pitrOpLock cfg0 agent0) None, EvCancel 2]"
  using pitr_stream_task_release_before_sleep
      [of env_stream_fails "slicer handle0" 3 1 cfg0 agent0 "Some (ErrNew ''oplog cursor closed'')" 0
          "pitrOpLock cfg0 agent0" None 0 2]
    pitr_stream_task_release_before_sleep
      [of env0 "slicer handle0" 3 1 cfg0 agent0 None 0 "pitrOpLock cfg0 agent0" None 0 2]
  by (simp add: env_stream_fails_def env0_def agent0_def pitrCheckPeriod_def second_def)

subsection \<open>A tick with a running slicer\<close>





subsection \<open>Documents that are not there\<close>

lemma waitNomination_loop_all_not_found:
  assumes "\<forall>w. \<exists>e w'. GetPITRNominees d rs w = (Inl e, w') \<and> errors_Is e ErrNotFound"
  shows "fst (waitNomination_loop d rs node n a) = Inr False"
proof (induction n arbitrary: a)
  case 0
  show ?case by simp
next
  case (Suc n)
  from assms obtain e w' where "GetPITRNominees d rs (world a) = (Inl e, w')"
    "errors_Is e ErrNotFound" by blast
  then show ?case using Suc.IH by (simp add: call_def)
qed

lemma confirmReadyStatus_loop_all_not_found:
  assumes "\<forall>w. \<exists>e w'. GetClusterStatus d w = (Inl e, w') \<and> errors_Is e ErrNotFound"
  shows "fst (confirmReadyStatus_loop d n a) =
     Some (ErrNew ''timeout while waiting for ready status'')"
proof (induction n arbitrary: a)
  case 0
  show ?case by simp
next
  case (Suc n)
  from assms obtain e w' where "GetClusterStatus d (world a) = (Inl e, w')"
    "errors_Is e ErrNotFound" by blast
  then show ?case using Suc.IH by (simp add: call_def)
qed

text \<open>
  C7. A config that is not found (\<open>mongo.ErrNoDocuments\<close>) is replaced by the empty
  config and the tick goes on with it: PITR is disabled there, so the tick clears the
  slot and returns nil. In the nominee's wait and in the wait for the ready status, a
  tick whose fetch finds no document (\<open>errors.ErrNotFound\<close>) is followed by the next
  poll. When no document ever appears, the nominee's wait ends at its timeout with
  \<open>(false, nil)\<close>, the wait for the ready status with its timeout error.
\<close>

theorem not_found_keeps_going:
  "(\<forall>e w1. GetConfig d (world a) = (Inl e, w1) \<and> errors_Is e ErrNoDocuments \<longrightarrow>
      pitr d a =
        pitr_with_config d emptyConfig (a\<lparr>world := w1, trace := trace a @ [EvGetConfig (Inl e)]\<rparr>)
      \<and> pitr d a =
        (Returned None, removePitr (a\<lparr>world := w1, trace := trace a @ [EvGetConfig (Inl e)]\<rparr>)))
   \<and> (\<forall>e w1. GetPITRNominees d rs (world a) = (Inl e, w1) \<and> errors_Is e ErrNotFound \<longrightarrow>
      waitNomination_loop d rs node (Suc n) a =
        waitNomination_loop d rs node n
          (a\<lparr>world := w1, trace := trace a @ [EvGetPITRNominees rs (Inl e)]\<rparr>))
   \<and> (\<forall>e w1. GetClusterStatus d (world a) = (Inl e, w1) \<and> errors_Is e ErrNotFound \<longrightarrow>
      confirmReadyStatus_loop d (Suc n) a =
        confirmReadyStatus_loop d n
          (a\<lparr>world := w1, trace := trace a @ [EvGetClusterStatus (Inl e)]\<rparr>))
   \<and> ((\<forall>w. \<exists>e w'. GetPITRNominees d rs w = (Inl e, w') \<and> errors_Is e ErrNotFound) \<longrightarrow>
      fst (waitNomination_loop d rs node n a) = Inr False)
   \<and> ((\<forall>w. \<exists>e w'. GetClusterStatus d w = (Inl e, w') \<and> errors_Is e ErrNotFound) \<longrightarrow>
      fst (confirmReadyStatus_loop d n a) =
        Some (ErrNew ''timeout while waiting for ready status''))"
proof -
  have 1: "pitr d a =
        pitr_with_config d emptyConfig (a\<lparr>world := w1, trace := trace a @ [EvGetConfig (Inl e)]\<rparr>)
      \<and> pitr d a =
        (Returned None, removePitr (a\<lparr>world := w1, trace := trace a @ [EvGetConfig (Inl e)]\<rparr>))"
    if "GetConfig d (world a) = (Inl e, w1)" and "errors_Is e ErrNoDocuments" for e w1
    using that by (simp add: pitr_def call_def pitr_with_config_def emptyConfig_def)
  have 2: "waitNomination_loop d rs node (Suc n) a =
        waitNomination_loop d rs node n
          (a\<lparr>world := w1, trace := trace a @ [EvGetPITRNominees rs (Inl e)]\<rparr>)"
    if "GetPITRNominees d rs (world a) = (Inl e, w1)" and "errors_Is e ErrNotFound" for e w1
    using that by (simp add: call_def)
  have 3: "confirmReadyStatus_loop d (Suc n) a =
        confirmReadyStatus_loop d n
          (a\<lparr>world := w1, trace := trace a @ [EvGetClusterStatus (Inl e)]\<rparr>)"
    if "GetClusterStatus d (world a) = (Inl e, w1)" and "errors_Is e ErrNotFound" for e w1
    using that by (simp add: call_def)
  from 1 2 3 waitNomination_loop_all_not_found [of d rs node n a]
    confirmReadyStatus_loop_all_not_found [of d n a]
  show ?thesis by blast
qed

theorem not_found_keeps_going_witness:
  "pitr env_empty agent_slicing =
     (Returned None, agent_slicing\<lparr>pitrjob := None, trace := [EvGetConfig (Inl ErrNoDocuments), EvCancel 2]\<rparr>)
   \<and> waitNomination_loop env_empty ''rs0'' ''a'' 2 agent0 =
     (Inr False,
      agent0\<lparr>world := 2,
         trace := [EvGetPITRNominees ''rs0'' (Inl (Wrap ErrNotFound ''get meta'')),
                   EvGetPITRNominees ''rs0'' (Inl (Wrap ErrNotFound ''get meta''))]\<rparr>)
   \<and> confirmReadyStatus_loop env_empty 2 agent0 =
     (Some (ErrNew ''timeout while waiting for ready status''),
      agent0\<lparr>trace := [EvGetClusterStatus (Inl ErrNotFound), EvGetClusterStatus (Inl ErrNotFound)]\<rparr>)"
  using not_found_keeps_going [of env_empty agent_slicing "''rs0''" "''a''" 1]
    not_found_keeps_going [of env_empty agent0 "''rs0''" "''a''" 1]
  by (simp add: env_empty_def env0_def agent_slicing_def agent0_def handle0_def
      removePitr_def setPitr_def emit_def call_def numeral_2_eq_2 pitr_def
      pitr_with_config_def emptyConfig_def)

subsection \<open>What a tick does before it takes the lock\<close>

lemma quiet_refl: "quiet a a"
  unfolding quiet_def by (rule exI [of _ "world a"], rule exI [of _ "[]"]) simp

lemma quiet_trans: "quiet a b \<Longrightarrow> quiet b c \<Longrightarrow> quiet a c"
  unfolding quiet_def
proof (elim exE conjE)
  fix wd t wd' t'
  assume b: "b = a\<lparr>world := wd, trace := trace a @ t\<rparr>"
    and t: "list_all (\<lambda>e. \<not> lock_stage_event e) t"
    and c: "c = b\<lparr>world := wd', trace := trace b @ t'\<rparr>"
    and t': "list_all (\<lambda>e. \<not> lock_stage_event e) t'"
  from b c have "c = a\<lparr>world := wd', trace := trace a @ (t @ t')\<rparr>" by simp
  moreover from t t' have "list_all (\<lambda>e. \<not> lock_stage_event e) (t @ t')" by simp
  ultimately show "\<exists>wd t. c = a\<lparr>world := wd, trace := trace a @ t\<rparr>
      \<and> list_all (\<lambda>e. \<not> lock_stage_event e) t"
    by blast
qed

lemma quiet_call:
  assumes "call f ev a = (r, a1)" and "\<not> lock_stage_event (ev r)"
  shows "quiet a a1"
proof -
  obtain w1 where f: "f (world a) = (r, w1)" and a1: "a1 = a\<lparr>world := w1, trace := trace a @ [ev r]\<rparr>"
    using assms(1) by (auto simp: call_def split: prod.splits)
  show ?thesis unfolding quiet_def
    using a1 assms(2) by (intro exI [of _ w1] exI [of _ "[ev r]"]) simp
qed

lemma quiet_emit: "\<not> lock_stage_event e \<Longrightarrow> quiet a (emit e a)"
  unfolding quiet_def emit_def
  by (intro exI [of _ "world a"] exI [of _ "[e]"]) simp

lemma quiet_fields:
  "quiet a a' \<Longrightarrow> pitrjob a' = pitrjob a \<and> prevOO a' = prevOO a \<and> agent_brief a' = agent_brief a"
  unfolding quiet_def by auto

lemma quiet_grows: "quiet a a' \<Longrightarrow> grows a a'"
  unfolding quiet_def grows_def by auto

lemma grows_refl: "grows a a"
  unfolding grows_def by simp

lemma grows_trans: "grows a b \<Longrightarrow> grows b c \<Longrightarrow> grows a c"
  unfolding grows_def by auto

lemma grows_new_events:
  "grows a a' \<Longrightarrow> trace a' = trace a @ new_events a a' \<and>
     list_all (\<lambda>e. \<not> lock_stage_event e) (new_events a a')"
  unfolding grows_def new_events_def by auto

lemma quiet_canSlicingNow_locks: "quiet a (snd (canSlicingNow_locks d ls a))"
proof (induction ls arbitrary: a)
  case Nil
  show ?case by (simp add: quiet_refl)
next
  case (Cons l ls)
  obtain r a1 where c: "call (GetBackupByOPID d (Lock_OPID (LockHeader l)))
                (EvGetBackupByOPID (Lock_OPID (LockHeader l))) a = (r, a1)"
    by force
  then have q: "quiet a a1" by (rule quiet_call) simp
  from q Cons.IH [of a1] have "quiet a (snd (canSlicingNow_locks d ls a1))"
    by (rule quiet_trans)
  with q c show ?case
    by (cases r) (simp_all add: quiet_refl)
qed

lemma quiet_canSlicingNow: "quiet a (snd (canSlicingNow d a))"
proof -
  obtain r a1 where c: "call (GetLocks d emptyLockHeader) (EvGetLocks emptyLockHeader) a = (r, a1)"
    by force
  then have q: "quiet a a1" by (rule quiet_call) simp
  from q quiet_canSlicingNow_locks have "quiet a (snd (canSlicingNow_locks d ls a1))" for ls
    by (rule quiet_trans)
  with q c show ?thesis
    by (cases r) (simp_all add: canSlicingNow_def)
qed

lemma quiet_pitrLockCheck: "quiet a (snd (pitrLockCheck d a))"
proof -
  obtain r a1 where c: "call (GetClusterTime d) EvGetClusterTime a = (r, a1)"
    by force
  then have q: "quiet a a1" by (rule quiet_call) simp
  obtain r2 a2 where c2: "call (GetOpLockData d (pitrLockHeader a)) (EvGetOpLockData (pitrLockHeader a)) a1
      = (r2, a2)"
    by force
  then have "quiet a1 a2" by (rule quiet_call) simp
  with q have q2: "quiet a a2" by (rule quiet_trans)
  from q q2 c c2 show ?thesis
    by (cases r; cases r2) (simp_all add: pitrLockCheck_def)
qed

lemma quiet_waitAllOpLockRelease_loop: "quiet a (snd (waitAllOpLockRelease_loop d n a))"
proof (induction n arbitrary: a)
  case 0
  show ?case by (simp add: quiet_refl)
next
  case (Suc n)
  obtain r a1 where c: "call (IsOplogSlicing d) EvIsOplogSlicing a = (r, a1)"
    by force
  then have q: "quiet a a1" by (rule quiet_call) simp
  from q Suc.IH [of a1] have "quiet a (snd (waitAllOpLockRelease_loop d n a1))"
    by (rule quiet_trans)
  with q c show ?case
    by (cases r) simp_all
qed

lemma quiet_foldl_emit:
  assumes "\<And>x. \<not> lock_stage_event (f x)"
  shows "quiet a (foldl (\<lambda>s x. emit (f x) s) a xs)"
proof (induction xs arbitrary: a)
  case Nil
  show ?case by (simp add: quiet_refl)
next
  case (Cons x xs)
  have "quiet a (emit (f x) a)" using assms by (rule quiet_emit)
  from this Cons.IH [of "emit (f x) a"] show ?case
    by (simp add: quiet_trans)
qed

lemma quiet_pitr_leader: "quiet a (snd (pitr_leader d cfg a))"
proof -
  obtain r1 a1 where c1: "waitAllOpLockRelease d a = (r1, a1)" by force
  have q1: "quiet a a1"
    using quiet_waitAllOpLockRelease_loop [of a d "opLockTicks d"] c1
    by (simp add: waitAllOpLockRelease_def)
  obtain r2 a2 where c2: "call (InitMeta d) EvInitMeta a1 = (r2, a2)" by force
  then have "quiet a1 a2" by (rule quiet_call) simp
  with q1 have q2: "quiet a a2" by (rule quiet_trans)
  obtain r3 a3 where c3: "call (ListAgentStatuses d) EvListAgentStatuses a2 = (r3, a3)" by force
  then have "quiet a2 a3" by (rule quiet_call) simp
  with q2 have q3: "quiet a a3" by (rule quiet_trans)
  show ?thesis
  proof (cases r1)
    case (Inl e)
    with c1 q1 show ?thesis by (simp add: pitr_leader_def)
  next
    case (Inr noLocks)
    note r1 = this
    show ?thesis
    proof (cases noLocks)
      case False
      with r1 c1 q1 show ?thesis by (simp add: pitr_leader_def)
    next
      case True
      note nl = this
      show ?thesis
      proof (cases r3)
        case (Inl e)
        with nl r1 c1 c2 c3 q3 show ?thesis by (simp add: pitr_leader_def)
      next
        case (Inr agents)
        note r3 = this
        obtain r4 a4 where c4: "call (CalcNodesPriority d (Priority (PITR cfg)) agents)
                          (EvCalcNodesPriority (Priority (PITR cfg)) agents) a3 = (r4, a4)"
          by force
        then have "quiet a3 a4" by (rule quiet_call) simp
        with q3 have q4: "quiet a a4" by (rule quiet_trans)
        show ?thesis
        proof (cases r4)
          case (Inl e)
          with nl r1 r3 c1 c2 c3 c4 q4 show ?thesis by (simp add: pitr_leader_def)
        next
          case (Inr nodes)
          note r4 = this
          obtain r5 a5 where c5: "call (ClusterMembers d) EvClusterMembers a4 = (r5, a5)" by force
          then have "quiet a4 a5" by (rule quiet_call) simp
          with q4 have q5: "quiet a a5" by (rule quiet_trans)
          show ?thesis
          proof (cases r5)
            case (Inl e)
            with nl r1 r3 r4 c1 c2 c3 c4 c5 q5 show ?thesis by (simp add: pitr_leader_def)
          next
            case (Inr shards)
            have "quiet a5 (foldl (\<lambda>s sh. emit (EvGo (GoNominate (Shard_RS sh)
                                                      (NodesRS d nodes (Shard_RS sh)))) s) a5 shards)"
              by (rule quiet_foldl_emit) simp
            with q5 have "quiet a (foldl (\<lambda>s sh. emit (EvGo (GoNominate (Shard_RS sh)
                                                      (NodesRS d nodes (Shard_RS sh)))) s) a5 shards)"
              by (rule quiet_trans)
            with Inr nl r1 r3 r4 c1 c2 c3 c4 c5 show ?thesis by (simp add: pitr_leader_def)
          qed
        qed
      qed
    qed
  qed
qed

lemma quiet_confirmReadyStatus_loop: "quiet a (snd (confirmReadyStatus_loop d n a))"
proof (induction n arbitrary: a)
  case 0
  show ?case by (simp add: quiet_refl)
next
  case (Suc n)
  obtain r a1 where c: "call (GetClusterStatus d) EvGetClusterStatus a = (r, a1)"
    by force
  then have q: "quiet a a1" by (rule quiet_call) simp
  obtain r2 a2 where c2: "call (SetReadyRSStatus d (SetName (agent_brief a)) (Me (agent_brief a)))
                    (EvSetReadyRSStatus (SetName (agent_brief a)) (Me (agent_brief a))) a1 = (r2, a2)"
    by force
  then have "quiet a1 a2" by (rule quiet_call) simp
  with q have q2: "quiet a a2" by (rule quiet_trans)
  from q Suc.IH [of a1] have "quiet a (snd (confirmReadyStatus_loop d n a1))"
    by (rule quiet_trans)
  with q q2 c c2 show ?case
    by (cases r; cases r2) simp_all
qed

lemma quiet_waitNomination_loop: "quiet a (snd (waitNomination_loop d rs node n a))"
proof (induction n arbitrary: a)
  case 0
  show ?case by (simp add: quiet_refl)
next
  case (Suc n)
  obtain r a1 where c: "call (GetPITRNominees d rs) (EvGetPITRNominees rs) a = (r, a1)"
    by force
  then have q: "quiet a a1" by (rule quiet_call) simp
  from q Suc.IH [of a1] have "quiet a (snd (waitNomination_loop d rs node n a1))"
    by (rule quiet_trans)
  with q c show ?case
    by (cases r) simp_all
qed

lemma quiet_waitNominationForPITR: "quiet a (snd (waitNominationForPITR d rs node a))"
proof -
  obtain r1 a1 where c1: "confirmReadyStatus d a = (r1, a1)" by force
  have q1: "quiet a a1"
    using quiet_confirmReadyStatus_loop [of a d "readyTicks d"] c1
    by (simp add: confirmReadyStatus_def)
  from q1 quiet_waitNomination_loop
  have "quiet a (snd (waitNomination_loop d rs node (nominationTicks d) a1))"
    by (rule quiet_trans)
  with q1 c1 show ?thesis
    by (cases r1) (simp_all add: waitNominationForPITR_def)
qed

subsection \<open>The tick up to the lock, for every result of the ack write\<close>

lemma canSlicingNow_locks_ack [simp]:
  "canSlicingNow_locks (d\<lparr>SetPITRNomineeACK := g\<rparr>) ls a = canSlicingNow_locks d ls a"
  by (induction ls arbitrary: a) (simp_all split: prod.splits sum.splits)

lemma canSlicingNow_ack [simp]:
  "canSlicingNow (d\<lparr>SetPITRNomineeACK := g\<rparr>) a = canSlicingNow d a"
  by (simp add: canSlicingNow_def cong: prod.case_cong sum.case_cong)

lemma pitrLockCheck_ack [simp]:
  "pitrLockCheck (d\<lparr>SetPITRNomineeACK := g\<rparr>) a = pitrLockCheck d a"
  by (simp add: pitrLockCheck_def cong: prod.case_cong sum.case_cong)

lemma waitAllOpLockRelease_loop_ack [simp]:
  "waitAllOpLockRelease_loop (d\<lparr>SetPITRNomineeACK := g\<rparr>) n a = waitAllOpLockRelease_loop d n a"
  by (induction n arbitrary: a) (simp_all split: prod.splits sum.splits)

lemma pitr_leader_ack [simp]:
  "pitr_leader (d\<lparr>SetPITRNomineeACK := g\<rparr>) cfg a = pitr_leader d cfg a"
  by (simp add: pitr_leader_def waitAllOpLockRelease_def
      cong: prod.case_cong sum.case_cong if_cong)

lemma confirmReadyStatus_loop_ack [simp]:
  "confirmReadyStatus_loop (d\<lparr>SetPITRNomineeACK := g\<rparr>) n a = confirmReadyStatus_loop d n a"
  by (induction n arbitrary: a) (simp_all split: prod.splits sum.splits)

lemma waitNomination_loop_ack [simp]:
  "waitNomination_loop (d\<lparr>SetPITRNomineeACK := g\<rparr>) rs node n a = waitNomination_loop d rs node n a"
  by (induction n arbitrary: a) (simp_all split: prod.splits sum.splits)

lemma waitNominationForPITR_ack [simp]:
  "waitNominationForPITR (d\<lparr>SetPITRNomineeACK := g\<rparr>) rs node a = waitNominationForPITR d rs node a"
  by (simp add: waitNominationForPITR_def confirmReadyStatus_def
      cong: prod.case_cong option.case_cong)

lemma deps_ack_same [simp]: "d\<lparr>SetPITRNomineeACK := SetPITRNomineeACK d\<rparr> = d"
  by simp

lemma pitr_election_shape:
  "(\<exists>a1. quiet a a1 \<and>
      (\<forall>g. pitr_election (d\<lparr>SetPITRNomineeACK := g\<rparr>) cfg si a =
           pitr_start (d\<lparr>SetPITRNomineeACK := g\<rparr>) cfg si a1))
   \<or> (quiet a (snd (pitr_election d cfg si a)) \<and>
      (\<forall>g. pitr_election (d\<lparr>SetPITRNomineeACK := g\<rparr>) cfg si a = pitr_election d cfg si a))"
proof -
  let ?ret = "quiet a (snd (pitr_election d cfg si a)) \<and>
      (\<forall>g. pitr_election (d\<lparr>SetPITRNomineeACK := g\<rparr>) cfg si a = pitr_election d cfg si a)"
  obtain r1 a1 where c1: "pitrLockCheck d a = (r1, a1)" by force
  have q1: "quiet a a1" using quiet_pitrLockCheck [of a d] c1 by simp
  obtain r2 a2 where c2: "call (GetNodeInfoExt d) EvGetNodeInfoExt a1 = (r2, a2)" by force
  then have "quiet a1 a2" by (rule quiet_call) simp
  with q1 have q2: "quiet a a2" by (rule quiet_trans)
  show ?thesis
  proof (cases r1)
    case (Inl e)
    with q1 have ?ret by (simp add: pitr_election_def c1)
    then show ?thesis ..
  next
    case (Inr moveOn)
    note r1 = this
    show ?thesis
    proof (cases moveOn)
      case False
      with r1 q1 have ?ret by (simp add: pitr_election_def c1)
      then show ?thesis ..
    next
      case True
      note mo = this
      show ?thesis
      proof (cases r2)
        case (Inl e)
        with mo r1 q2 have ?ret by (simp add: pitr_election_def c1 c2)
        then show ?thesis ..
      next
        case (Inr ni)
        note r2 = this
        obtain r3 a3 where c3: "call (NodeSuits d ni) (EvNodeSuits ni) a2 = (r3, a3)" by force
        then have "quiet a2 a3" by (rule quiet_call) simp
        with q2 have q3: "quiet a a3" by (rule quiet_trans)
        show ?thesis
        proof (cases r3)
          case (Inl e)
          with mo r1 r2 q3 have ?ret by (simp add: pitr_election_def c1 c2 c3)
          then show ?thesis ..
        next
          case (Inr q)
          note r3 = this
          show ?thesis
          proof (cases q)
            case False
            with mo r1 r2 r3 q3 have ?ret by (simp add: pitr_election_def c1 c2 c3)
            then show ?thesis ..
          next
            case True
            note suits = this
            obtain r4 a4 where c4: "(if NI_IsClusterLeader ni then pitr_leader d cfg a3
                               else (None, a3)) = (r4, a4)"
              by force
            have "quiet a3 a4"
              using c4 quiet_pitr_leader [of a3 d cfg] quiet_refl [of a3]
              by (cases "NI_IsClusterLeader ni") simp_all
            with q3 have q4: "quiet a a4" by (rule quiet_trans)
            from c4 have c4':
              "NI_IsClusterLeader ni \<and> pitr_leader d cfg a3 = (r4, a4)
               \<or> \<not> NI_IsClusterLeader ni \<and> r4 = None \<and> a4 = a3"
              by (cases "NI_IsClusterLeader ni") simp_all
            obtain r5 a5 where c5: "waitNominationForPITR d (NI_SetName ni) (NI_Me ni) a4 = (r5, a5)"
              by force
            have "quiet a4 a5"
              using quiet_waitNominationForPITR [of a4 d "NI_SetName ni" "NI_Me ni"] c5 by simp
            with q4 have q5: "quiet a a5" by (rule quiet_trans)
            show ?thesis
            proof (cases r4)
              case (Some r)
              with suits mo r1 r2 r3 q4 c4' have ?ret
                by (auto simp add: pitr_election_def c1 c2 c3)
              then show ?thesis ..
            next
              case None
              note r4 = this
              show ?thesis
              proof (cases r5)
                case (Inl e)
                with suits mo r1 r2 r3 r4 q5 c4' c5 have ?ret
                  by (auto simp add: pitr_election_def c1 c2 c3)
                then show ?thesis ..
              next
                case (Inr nominated)
                note r5 = this
                show ?thesis
                proof (cases nominated)
                  case False
                  with suits mo r1 r2 r3 r4 r5 q5 c4' c5 have ?ret
                    by (auto simp add: pitr_election_def c1 c2 c3)
                  then show ?thesis ..
                next
                  case True
                  with suits mo r1 r2 r3 r4 r5 q5 c4' c5
                  have "quiet a a5 \<and>
                    (\<forall>g. pitr_election (d\<lparr>SetPITRNomineeACK := g\<rparr>) cfg si a =
                         pitr_start (d\<lparr>SetPITRNomineeACK := g\<rparr>) cfg si a5)"
                    by (auto simp add: pitr_election_def c1 c2 c3)
                  then show ?thesis by blast
                qed
              qed
            qed
          qed
        qed
      qed
    qed
  qed
qed


lemma grows_removePitr: "grows a (removePitr a)"
  unfolding grows_def removePitr_def setPitr_def emit_def
  by (cases "pitrjob a") simp_all

lemma grows_stopPitrOnOplogOnlyChange: "grows a (stopPitrOnOplogOnlyChange v a)"
  unfolding grows_def stopPitrOnOplogOnlyChange_def removePitr_def setPitr_def emit_def
  by (cases "pitrjob a"; cases "prevOO a") simp_all

lemma snd_returned [simp]: "snd (returned x) = snd x"
  by (simp add: returned_def)

lemma fst_returned [simp]: "fst (returned x) = Returned (fst x)"
  by (simp add: returned_def)

lemma sliceNow_ack [simp]:
  "sliceNow (d\<lparr>SetPITRNomineeACK := g\<rparr>) op a = sliceNow d op a"
  by (simp add: sliceNow_def cong: option.case_cong)

lemma pitr_reconcile_ack [simp]:
  "pitr_reconcile (d\<lparr>SetPITRNomineeACK := g\<rparr>) si p a = pitr_reconcile d si p a"
  by (simp add: pitr_reconcile_def Let_def cong: if_cong)

lemma grows_pitr_reconcile: "grows a (snd (pitr_reconcile d si p a))"
  unfolding grows_def pitr_reconcile_def sliceNow_def call_def
  by (auto simp: Let_def split: prod.splits option.splits bool.splits)

lemma pitr_with_config_shape:
  "(\<exists>a1. grows a a1 \<and> pitrjob a1 = None \<and>
      (\<forall>g. pitr_with_config (d\<lparr>SetPITRNomineeACK := g\<rparr>) cfg a =
           returned (pitr_start (d\<lparr>SetPITRNomineeACK := g\<rparr>) cfg (OplogSlicerInterval d cfg) a1)))
   \<or> (grows a (snd (pitr_with_config d cfg a)) \<and>
      (\<forall>g. pitr_with_config (d\<lparr>SetPITRNomineeACK := g\<rparr>) cfg a = pitr_with_config d cfg a))"
proof -
  let ?ret = "grows a (snd (pitr_with_config d cfg a)) \<and>
      (\<forall>g. pitr_with_config (d\<lparr>SetPITRNomineeACK := g\<rparr>) cfg a = pitr_with_config d cfg a)"
  let ?a1 = "stopPitrOnOplogOnlyChange (OplogOnly (PITR cfg)) a"
  have g1: "grows a ?a1" by (rule grows_stopPitrOnOplogOnlyChange)
  obtain r2 a2 where c2: "canSlicingNow d ?a1 = (r2, a2)" by force
  have q2: "quiet ?a1 a2" using quiet_canSlicingNow [of ?a1 d] c2 by simp
  with g1 have g2: "grows a a2" by (blast intro: grows_trans quiet_grows)
  show ?thesis
  proof (cases "Enabled (PITR cfg)")
    case False
    then have ?ret by (simp add: pitr_with_config_def grows_removePitr)
    then show ?thesis ..
  next
    case True
    note en = this
    show ?thesis
    proof (cases r2)
      case (Some e)
      with en g2 have ?ret
        by (cases "errors_As_ConcurrentOp e") (simp_all add: pitr_with_config_def c2)
      then show ?thesis ..
    next
      case None
      note r2 = this
      show ?thesis
      proof (cases "getPitr a2")
        case (Some p)
        have "grows a (snd (pitr_reconcile d (OplogSlicerInterval d cfg) p a2))"
          using g2 grows_pitr_reconcile by (rule grows_trans)
        with Some en r2 have ?ret by (simp add: pitr_with_config_def c2)
        then show ?thesis ..
      next
        case None
        note nojob = this
        from pitr_election_shape [of a2 d cfg "OplogSlicerInterval d cfg"]
        show ?thesis
        proof (elim disjE exE conjE)
          fix a1
          assume q: "quiet a2 a1"
            and st: "\<forall>g. pitr_election (d\<lparr>SetPITRNomineeACK := g\<rparr>) cfg (OplogSlicerInterval d cfg) a2 =
               pitr_start (d\<lparr>SetPITRNomineeACK := g\<rparr>) cfg (OplogSlicerInterval d cfg) a1"
          from q nojob have "pitrjob a1 = None"
            using quiet_fields [of a2 a1] by (simp add: getPitr_def)
          moreover from g2 q have "grows a a1" by (blast intro: grows_trans quiet_grows)
          moreover from st en r2 nojob
          have "\<forall>g. pitr_with_config (d\<lparr>SetPITRNomineeACK := g\<rparr>) cfg a =
             returned (pitr_start (d\<lparr>SetPITRNomineeACK := g\<rparr>) cfg (OplogSlicerInterval d cfg) a1)"
            by (simp add: pitr_with_config_def c2)
          ultimately show ?thesis by blast
        next
          assume q: "quiet a2 (snd (pitr_election d cfg (OplogSlicerInterval d cfg) a2))"
            and eq: "\<forall>g. pitr_election (d\<lparr>SetPITRNomineeACK := g\<rparr>) cfg (OplogSlicerInterval d cfg) a2 =
               pitr_election d cfg (OplogSlicerInterval d cfg) a2"
          from g2 q have "grows a (snd (pitr_election d cfg (OplogSlicerInterval d cfg) a2))"
            by (blast intro: grows_trans quiet_grows)
          with eq en r2 nojob have ?ret by (simp add: pitr_with_config_def c2)
          then show ?thesis ..
        qed
      qed
    qed
  qed
qed

lemma pitr_shape:
  "(\<exists>cfg si a1. grows a a1 \<and> pitrjob a1 = None \<and>
      (\<forall>g. pitr (d\<lparr>SetPITRNomineeACK := g\<rparr>) a =
           returned (pitr_start (d\<lparr>SetPITRNomineeACK := g\<rparr>) cfg si a1)))
   \<or> (grows a (snd (pitr d a)) \<and> (\<forall>g. pitr (d\<lparr>SetPITRNomineeACK := g\<rparr>) a = pitr d a))"
proof -
  let ?ret = "grows a (snd (pitr d a)) \<and> (\<forall>g. pitr (d\<lparr>SetPITRNomineeACK := g\<rparr>) a = pitr d a)"
  obtain r0 a0 where c0: "call (GetConfig d) EvGetConfig a = (r0, a0)" by force
  then have "quiet a a0" by (rule quiet_call) simp
  then have g0: "grows a a0" by (rule quiet_grows)
  have main: ?thesis if run: "\<forall>g. pitr (d\<lparr>SetPITRNomineeACK := g\<rparr>) a =
      pitr_with_config (d\<lparr>SetPITRNomineeACK := g\<rparr>) cfg a0" for cfg
  proof -
    from run have run0: "pitr d a = pitr_with_config d cfg a0"
      using spec [OF run, of "SetPITRNomineeACK d"] by simp
    from pitr_with_config_shape [of a0 d cfg] show ?thesis
    proof (elim disjE exE conjE)
      fix a1
      assume g1: "grows a0 a1" and nj: "pitrjob a1 = None"
        and st: "\<forall>g. pitr_with_config (d\<lparr>SetPITRNomineeACK := g\<rparr>) cfg a0 =
           returned (pitr_start (d\<lparr>SetPITRNomineeACK := g\<rparr>) cfg (OplogSlicerInterval d cfg) a1)"
      from g0 g1 have "grows a a1" by (rule grows_trans)
      moreover from run st
      have "\<forall>g. pitr (d\<lparr>SetPITRNomineeACK := g\<rparr>) a =
           returned (pitr_start (d\<lparr>SetPITRNomineeACK := g\<rparr>) cfg (OplogSlicerInterval d cfg) a1)"
        by simp
      ultimately have "\<exists>cfg si a1. grows a a1 \<and> pitrjob a1 = None \<and>
        (\<forall>g. pitr (d\<lparr>SetPITRNomineeACK := g\<rparr>) a =
           returned (pitr_start (d\<lparr>SetPITRNomineeACK := g\<rparr>) cfg si a1))"
        using nj by (intro exI conjI)
      then show ?thesis ..
    next
      assume g1: "grows a0 (snd (pitr_with_config d cfg a0))"
        and eq: "\<forall>g. pitr_with_config (d\<lparr>SetPITRNomineeACK := g\<rparr>) cfg a0 = pitr_with_config d cfg a0"
      from g0 g1 have "grows a (snd (pitr_with_config d cfg a0))" by (rule grows_trans)
      with run run0 eq have ?ret by simp
      then show ?thesis ..
    qed
  qed
  show ?thesis
  proof (cases r0)
    case (Inr cfg)
    then have "\<forall>g. pitr (d\<lparr>SetPITRNomineeACK := g\<rparr>) a =
      pitr_with_config (d\<lparr>SetPITRNomineeACK := g\<rparr>) cfg a0"
      by (simp add: pitr_def c0)
    then show ?thesis by (rule main)
  next
    case (Inl e)
    show ?thesis
    proof (cases "errors_Is e ErrNoDocuments")
      case True
      with Inl have "\<forall>g. pitr (d\<lparr>SetPITRNomineeACK := g\<rparr>) a =
        pitr_with_config (d\<lparr>SetPITRNomineeACK := g\<rparr>) emptyConfig a0"
        by (simp add: pitr_def c0)
      then show ?thesis by (rule main)
    next
      case False
      with Inl g0 have ?ret by (simp add: pitr_def c0)
      then show ?thesis ..
    qed
  qed
qed


subsection \<open>From the lock to the streaming goroutine\<close>

lemma pitr_start_events:
  "\<exists>t. trace (snd (pitr_start d cfg si a)) = trace a @ t \<and>
       pitrjob (snd (pitr_start d cfg si a)) = pitrjob a \<and>
       ((\<forall>s e. EvCatchup s (Some e) \<notin> set t \<and> EvOplogOnlyCatchup s (Some e) \<notin> set t)
        \<or> (\<exists>s e ack stg rr cev.
              t = [EvAcquireLock (pitrOpLock cfg a) (Inr True),
                   EvSetPITRNomineeACK (SetName (agent_brief a)) (Me (agent_brief a)) ack,
                   EvStorageFromConfig (Storage cfg) (Inr stg), cev,
                   EvRelease (pitrOpLock cfg a) rr]
              \<and> (cev = EvCatchup s (Some e) \<or> cev = EvOplogOnlyCatchup s (Some e))
              \<and> fst (pitr_start d cfg si a) = Some (Wrap e ''catchup'')))"
  by (auto simp: pitr_start_def call_def emit_def Let_def
      split: prod.splits sum.splits option.splits)


text \<open>
  C5. In a tick whose trace shows the lock \<open>lck\<close> acquired and a catchup (or
  oplog-only catchup) that failed with \<open>e\<close>: the tick returns, with \<open>e\<close> wrapped as
  "catchup", its last call is the release of \<open>lck\<close>, the slicer slot is empty at the
  end and no streaming goroutine (the one that installs the handle) was started.
\<close>

theorem pitr_catchup_failure:
  assumes acq: "EvAcquireLock lck (Inr True) \<in> set (new_events a (snd (pitr d a)))"
    and cf: "EvCatchup s (Some e) \<in> set (new_events a (snd (pitr d a)))
             \<or> EvOplogOnlyCatchup s (Some e) \<in> set (new_events a (snd (pitr d a)))"
  shows "fst (pitr d a) = Returned (Some (Wrap e ''catchup''))
     \<and> (\<exists>rr. last (trace (snd (pitr d a))) = EvRelease lck rr)
     \<and> pitrjob (snd (pitr d a)) = None
     \<and> (\<forall>s' c l. EvGo (GoStream s' c l) \<notin> set (new_events a (snd (pitr d a))))"
proof -
  from pitr_shape [of a d] show ?thesis
  proof (elim disjE exE conjE)
    assume "grows a (snd (pitr d a))"
    then have "list_all (\<lambda>e. \<not> lock_stage_event e) (new_events a (snd (pitr d a)))"
      using grows_new_events by blast
    with cf have False by (auto simp: list_all_iff)
    then show ?thesis ..
  next
    fix cfg si a1
    assume g: "grows a a1" and nj: "pitrjob a1 = None"
      and st: "\<forall>g. pitr (d\<lparr>SetPITRNomineeACK := g\<rparr>) a =
           returned (pitr_start (d\<lparr>SetPITRNomineeACK := g\<rparr>) cfg si a1)"
    from spec [OF st, of "SetPITRNomineeACK d"]
    have run: "pitr d a = returned (pitr_start d cfg si a1)" by simp
    from g obtain t1 where t1: "trace a1 = trace a @ t1"
      "list_all (\<lambda>e. \<not> lock_stage_event e) t1"
      unfolding grows_def by blast
    from pitr_start_events [of d cfg si a1] obtain t2 where
      t2: "trace (snd (pitr_start d cfg si a1)) = trace a1 @ t2"
      and job: "pitrjob (snd (pitr_start d cfg si a1)) = pitrjob a1"
      and alt: "(\<forall>s e. EvCatchup s (Some e) \<notin> set t2 \<and> EvOplogOnlyCatchup s (Some e) \<notin> set t2)
        \<or> (\<exists>s e ack stg rr cev.
              t2 = [EvAcquireLock (pitrOpLock cfg a1) (Inr True),
                   EvSetPITRNomineeACK (SetName (agent_brief a1)) (Me (agent_brief a1)) ack,
                   EvStorageFromConfig (Storage cfg) (Inr stg), cev,
                   EvRelease (pitrOpLock cfg a1) rr]
              \<and> (cev = EvCatchup s (Some e) \<or> cev = EvOplogOnlyCatchup s (Some e))
              \<and> fst (pitr_start d cfg si a1) = Some (Wrap e ''catchup''))"
      by blast
    have ne: "new_events a (snd (pitr d a)) = t1 @ t2"
      using run t1(1) t2 by (simp add: new_events_def)
    have in1: "ev \<in> set t1 \<Longrightarrow> \<not> lock_stage_event ev" for ev
      using t1(2) by (simp add: list_all_iff)
    from cf ne in1 [of "EvCatchup s (Some e)"] in1 [of "EvOplogOnlyCatchup s (Some e)"]
    have cf2: "EvCatchup s (Some e) \<in> set t2 \<or> EvOplogOnlyCatchup s (Some e) \<in> set t2"
      by auto
    from acq ne in1 [of "EvAcquireLock lck (Inr True)"]
    have acq2: "EvAcquireLock lck (Inr True) \<in> set t2"
      by auto
    from alt cf2 obtain s' e' ack stg rr cev where
      sh: "t2 = [EvAcquireLock (pitrOpLock cfg a1) (Inr True),
                   EvSetPITRNomineeACK (SetName (agent_brief a1)) (Me (agent_brief a1)) ack,
                   EvStorageFromConfig (Storage cfg) (Inr stg), cev,
                   EvRelease (pitrOpLock cfg a1) rr]"
      and cev: "cev = EvCatchup s' (Some e') \<or> cev = EvOplogOnlyCatchup s' (Some e')"
      and res: "fst (pitr_start d cfg si a1) = Some (Wrap e' ''catchup'')"
      by blast
    from cf2 sh cev have e: "e' = e" by auto
    from acq2 sh cev have l: "lck = pitrOpLock cfg a1" by auto
    have 1: "fst (pitr d a) = Returned (Some (Wrap e ''catchup''))" using run res e by simp
    have 2: "last (trace (snd (pitr d a))) = EvRelease lck rr" using run t2 sh l by simp
    have 3: "pitrjob (snd (pitr d a)) = None" using run job nj by simp
    have 4: "EvGo (GoStream s' c l) \<notin> set (new_events a (snd (pitr d a)))" for s' c l
      using ne sh cev in1 [of "EvGo (GoStream s' c l)"] by auto
    from 1 2 3 4 show ?thesis by blast
  qed
qed

theorem pitr_catchup_failure_witness:
  "EvAcquireLock (pitrOpLock cfg0 agent0) (Inr True)
     \<in> set (new_events agent0 (snd (pitr env_catchup_fails agent0)))
   \<and> fst (pitr env_catchup_fails agent0) =
       Returned (Some (Wrap (ErrNew ''no backup found'') ''catchup''))
   \<and> last (trace (snd (pitr env_catchup_fails agent0))) = EvRelease (pitrOpLock cfg0 agent0) None
   \<and> pitrjob (snd (pitr env_catchup_fails agent0)) = None"
  using pitr_catchup_failure [of "pitrOpLock cfg0 agent0" agent0 env_catchup_fails
      "SetSpan (60 * second) (NewSlicer env0 ''rs0'' ''s3'' cfg0)" "ErrNew ''no backup found''"]
  by (simp add: env_catchup_fails_def env0_def agent0_def cfg0_def pitr_def pitr_with_config_def
      pitr_election_def pitr_start_def pitrLockCheck_def waitNominationForPITR_def
      confirmReadyStatus_def canSlicingNow_def stopPitrOnOplogOnlyChange_def getPitr_def
      call_def emit_def new_events_def pitrOpLock_def pitrLockHeader_def SetSpan_def
      emptyLockHeader_def eval_nat_numeral second_def Let_def returned_def)


lemma same_but_ack_refl: "same_but_ack a a"
  by (simp add: same_but_ack_def)

lemma pitr_start_ack_ignored:
  assumes "\<forall>rs n w. snd (g rs n w) = snd (SetPITRNomineeACK d rs n w)"
  shows "fst (pitr_start (d\<lparr>SetPITRNomineeACK := g\<rparr>) cfg si a) = fst (pitr_start d cfg si a)
     \<and> same_but_ack (snd (pitr_start (d\<lparr>SetPITRNomineeACK := g\<rparr>) cfg si a))
          (snd (pitr_start d cfg si a))"
proof -
  obtain r1 w1 where c1: "acquireLock d (pitrOpLock cfg a) (world a) = (r1, w1)" by force
  obtain rA w2 where cA: "SetPITRNomineeACK d (SetName (agent_brief a)) (Me (agent_brief a)) w1 = (rA, w2)"
    by force
  obtain rB w2' where cB: "g (SetName (agent_brief a)) (Me (agent_brief a)) w1 = (rB, w2')"
    by force
  from assms cA cB have w: "w2' = w2"
    by (metis snd_conv)
  obtain r3 w3 where c3: "StorageFromConfig d (Storage cfg) w2 = (r3, w3)" by force
  show ?thesis
  proof (cases r1)
    case (Inl e)
    with c1 show ?thesis
      by (simp add: pitr_start_def call_def same_but_ack_def)
  next
    case (Inr got)
    note r1 = this
    show ?thesis
    proof (cases got)
      case False
      with r1 c1 show ?thesis
        by (simp add: pitr_start_def call_def same_but_ack_def)
    next
      case True
      note got = this
      show ?thesis
      proof (cases r3)
        case (Inl e)
        with got r1 c1 cA cB w c3 show ?thesis
          by (simp add: pitr_start_def call_def same_but_ack_def)
      next
        case (Inr stg)
        with got r1 c1 cA cB w c3 show ?thesis
          by (simp add: pitr_start_def call_def emit_def same_but_ack_def Let_def
              split: prod.splits option.splits)
      qed
    qed
  qed
qed

lemma ack_then_storage_skip:
  "list_all (\<lambda>e. \<not> lock_stage_event e) t \<Longrightarrow> ack_then_storage (t @ t2) = ack_then_storage t2"
proof (induction t)
  case Nil
  show ?case by simp
next
  case (Cons e t)
  then show ?case by (cases e) simp_all
qed

lemma pitr_start_ack_then_storage:
  "\<exists>t. trace (snd (pitr_start d cfg si a)) = trace a @ t \<and> ack_then_storage t"
  by (auto simp: pitr_start_def call_def emit_def Let_def
      split: prod.splits sum.splits option.splits)

lemma pitr_ack_then_storage: "ack_then_storage (new_events a (snd (pitr d a)))"
proof -
  from pitr_shape [of a d] show ?thesis
  proof (elim disjE exE conjE)
    assume "grows a (snd (pitr d a))"
    then have "list_all (\<lambda>e. \<not> lock_stage_event e) (new_events a (snd (pitr d a)))"
      using grows_new_events by blast
    from ack_then_storage_skip [OF this, of "[]"] show ?thesis by simp
  next
    fix cfg si a1
    assume g: "grows a a1"
      and st: "\<forall>g. pitr (d\<lparr>SetPITRNomineeACK := g\<rparr>) a =
           returned (pitr_start (d\<lparr>SetPITRNomineeACK := g\<rparr>) cfg si a1)"
    from spec [OF st, of "SetPITRNomineeACK d"]
    have run: "pitr d a = returned (pitr_start d cfg si a1)" by simp
    from g obtain t1 where t1: "trace a1 = trace a @ t1"
      "list_all (\<lambda>e. \<not> lock_stage_event e) t1"
      unfolding grows_def by blast
    from pitr_start_ack_then_storage [of d cfg si a1] obtain t2 where
      t2: "trace (snd (pitr_start d cfg si a1)) = trace a1 @ t2" "ack_then_storage t2"
      by blast
    have "new_events a (snd (pitr d a)) = t1 @ t2"
      using run t1(1) t2(1) by (simp add: new_events_def)
    with ack_then_storage_skip [OF t1(2), of t2] t2(2) show ?thesis by simp
  qed
qed

text \<open>
  C9. Let the write of the nominee ack return any other error value \<open>g\<close>, with the
  same effect on the world. The tick returns the same value to its caller and ends in
  the same state, with the same calls in the same order: the traces differ at most in
  the result recorded for the ack write itself. And in every tick that acquires the
  lock, the ack write is followed by the call for the storage and, with the storage,
  by the catchup on the new slicer.
\<close>

theorem pitr_ack_error_discarded:
  assumes "\<forall>rs n w. snd (g rs n w) = snd (SetPITRNomineeACK d rs n w)"
  shows "fst (pitr (d\<lparr>SetPITRNomineeACK := g\<rparr>) a) = fst (pitr d a)
     \<and> same_but_ack (snd (pitr (d\<lparr>SetPITRNomineeACK := g\<rparr>) a)) (snd (pitr d a))
     \<and> ack_then_storage (new_events a (snd (pitr (d\<lparr>SetPITRNomineeACK := g\<rparr>) a)))"
proof -
  have "fst (pitr (d\<lparr>SetPITRNomineeACK := g\<rparr>) a) = fst (pitr d a)
     \<and> same_but_ack (snd (pitr (d\<lparr>SetPITRNomineeACK := g\<rparr>) a)) (snd (pitr d a))"
    using pitr_shape [of a d]
  proof (elim disjE exE conjE)
    assume "\<forall>g. pitr (d\<lparr>SetPITRNomineeACK := g\<rparr>) a = pitr d a"
    then show ?thesis by (simp add: same_but_ack_refl)
  next
    fix cfg si a1
    assume st: "\<forall>g. pitr (d\<lparr>SetPITRNomineeACK := g\<rparr>) a =
           returned (pitr_start (d\<lparr>SetPITRNomineeACK := g\<rparr>) cfg si a1)"
    from spec [OF st, of "SetPITRNomineeACK d"]
    have run: "pitr d a = returned (pitr_start d cfg si a1)" by simp
    from spec [OF st, of g]
    have run': "pitr (d\<lparr>SetPITRNomineeACK := g\<rparr>) a =
      returned (pitr_start (d\<lparr>SetPITRNomineeACK := g\<rparr>) cfg si a1)" .
    from pitr_start_ack_ignored [OF assms, of cfg si a1] run run'
    show ?thesis by simp
  qed
  with pitr_ack_then_storage [of a "d\<lparr>SetPITRNomineeACK := g\<rparr>"] show ?thesis by simp
qed

theorem pitr_ack_error_discarded_witness:
  "SetPITRNomineeACK env_ack_write_fails ''rs0'' ''a'' 1 = (Some (ErrNew ''not primary''), 1)
   \<and> fst (pitr env_ack_write_fails agent0) = Returned None
   \<and> fst (pitr env0 agent0) = Returned None
   \<and> same_but_ack (snd (pitr env_ack_write_fails agent0)) (snd (pitr env0 agent0))
   \<and> ack_then_storage (new_events agent0 (snd (pitr env_ack_write_fails agent0)))
   \<and> drop 9 (trace (snd (pitr env_ack_write_fails agent0))) =
       [EvAcquireLock (pitrOpLock cfg0 agent0) (Inr True),
        EvSetPITRNomineeACK ''rs0'' ''a'' (Some (ErrNew ''not primary'')),
        EvStorageFromConfig ''s3'' (Inr ''s3''),
        EvCatchup \<lparr>Slicer_RS = ''rs0'', Slicer_Storage = ''s3'', span = 60000000000\<rparr> None,
        EvGo (GoStream \<lparr>Slicer_RS = ''rs0'', Slicer_Storage = ''s3'', span = 60000000000\<rparr>
                cfg0 (pitrOpLock cfg0 agent0))]"
proof -
  have e: "env0\<lparr>SetPITRNomineeACK := (\<lambda>rs node n. (Some (ErrNew ''not primary''), n))\<rparr> =
      env_ack_write_fails"
    by (simp add: env_ack_write_fails_def)
  have h: "\<forall>rs n w. snd (Some (ErrNew ''not primary''), w) = snd (SetPITRNomineeACK env0 rs n w)"
    by (simp add: env0_def)
  have run: "pitr env_ack_write_fails agent0 =
    (Returned None, agent0\<lparr>prevOO := Some False, world := 1,
       trace := [EvGetConfig (Inr cfg0), EvGetLocks emptyLockHeader (Inr []),
         EvGetClusterTime (Inr \<lparr>ts_T = 1000, ts_I = 0\<rparr>),
         EvGetOpLockData (pitrLockHeader agent0) (Inl ErrNoDocuments),
         EvGetNodeInfoExt (Inr \<lparr>NI_SetName = ''rs0'', NI_Me = ''a'', NI_IsClusterLeader = False\<rparr>),
         EvNodeSuits \<lparr>NI_SetName = ''rs0'', NI_Me = ''a'', NI_IsClusterLeader = False\<rparr> (Inr True),
         EvGetClusterStatus (Inr StatusReady),
         EvSetReadyRSStatus ''rs0'' ''a'' None,
         EvGetPITRNominees ''rs0'' (Inr \<lparr>Nom_RS = ''rs0'', Nom_Nodes = [''a''], Nom_Ack = []\<rparr>),
         EvAcquireLock (pitrOpLock cfg0 agent0) (Inr True),
         EvSetPITRNomineeACK ''rs0'' ''a'' (Some (ErrNew ''not primary'')),
         EvStorageFromConfig ''s3'' (Inr ''s3''),
         EvCatchup \<lparr>Slicer_RS = ''rs0'', Slicer_Storage = ''s3'', span = 60000000000\<rparr> None,
         EvGo (GoStream \<lparr>Slicer_RS = ''rs0'', Slicer_Storage = ''s3'', span = 60000000000\<rparr>
                cfg0 (pitrOpLock cfg0 agent0))]\<rparr>)"
    by (simp add: env_ack_write_fails_def env0_def agent0_def cfg0_def pitr_def pitr_with_config_def
      pitr_election_def pitr_start_def pitrLockCheck_def waitNominationForPITR_def
      confirmReadyStatus_def canSlicingNow_def stopPitrOnOplogOnlyChange_def getPitr_def
      call_def emit_def pitrOpLock_def pitrLockHeader_def SetSpan_def
      emptyLockHeader_def eval_nat_numeral second_def Let_def returned_def)
  from pitr_ack_error_discarded [of "\<lambda>rs node n. (Some (ErrNew ''not primary''), n)" env0 agent0, OF h]
  have "fst (pitr env_ack_write_fails agent0) = fst (pitr env0 agent0)
     \<and> same_but_ack (snd (pitr env_ack_write_fails agent0)) (snd (pitr env0 agent0))
     \<and> ack_then_storage (new_events agent0 (snd (pitr env_ack_write_fails agent0)))"
    by (simp only: e)
  with run show ?thesis
    by (simp add: env_ack_write_fails_def)
qed

end
